theory Spec2Isabelle
  imports Complex_Main "HOL-Library.Log_Nat"
begin

section \<open>JavaScript values\<close>

text \<open>
  The values that cross the boundaries modelled here (the raw result of \<open>model.predict\<close>,
  the request payload). Numbers are idealised as reals with \<open>NaN\<close> kept apart, because
  \<open>NaN\<close> is falsy; the infinities are left out. An object is its list of own properties,
  the first binding of a name being the one that is read.
\<close>

datatype jsval =
    JUndefined
  | JNull
  | JBool bool
  | JNum real
  | JNaN
  | JStr string
  | JArr "jsval list"
  | JObj "(string \<times> jsval) list"

text \<open>Truthiness, as \<open>!x\<close>, \<open>x || y\<close> and \<open>if (x)\<close> read it.\<close>

fun truthy :: "jsval \<Rightarrow> bool" where
  "truthy JUndefined = False"
| "truthy JNull = False"
| "truthy (JBool b) = b"
| "truthy (JNum x) = (x \<noteq> 0)"
| "truthy JNaN = False"
| "truthy (JStr s) = (s \<noteq> [])"
| "truthy (JArr xs) = True"
| "truthy (JObj kvs) = True"

text \<open>
  Reading a named property \<open>v.k\<close> of a value that is neither \<open>null\<close> nor \<open>undefined\<close>
  (on those two the read throws a TypeError, which the callers below model). Only the
  names \<open>predictions\<close> and \<open>confidence\<close> are read, and no array, string, number or
  boolean has either.
\<close>

fun get_prop :: "jsval \<Rightarrow> string \<Rightarrow> jsval" where
  "get_prop (JObj kvs) k = (case map_of kvs k of Some v \<Rightarrow> v | None \<Rightarrow> JUndefined)"
| "get_prop v k = JUndefined"

text \<open>\<open>a || b\<close>\<close>

definition js_or :: "jsval \<Rightarrow> jsval \<Rightarrow> jsval" where
  "js_or a b = (if truthy a then a else b)"

section \<open>Errors\<close>

text \<open>
  One constructor for each \<open>throw\<close> of the modelled code, named by the message of the
  \<open>Error\<close> it throws. \<open>PredictError\<close> is whatever \<open>model.predict\<close> rejects with,
  \<open>TypeError\<close> the engine's own for a property read on \<open>null\<close> or \<open>undefined\<close>
  or an iteration over a value that is not iterable, \<open>FsError\<close> a rejection of the
  \<open>fs\<close> module.
\<close>

datatype error =
    ERR_CAPACITY_EXCEEDED
  | ERR_MODEL_NOT_AVAILABLE
  | ERR_INVALID_INPUT
  | ERR_INFERENCE_TIMEOUT
  | PredictError string
  | TypeError
  | ERR_MODEL_TOO_LARGE
  | ERR_INVALID_MODEL_DATA
  | ERR_INVALID_METADATA
  | ERR_MODEL_ALREADY_EXISTS
  | ERR_MODEL_NOT_FOUND
  | ERR_WORKER_NOT_MONITORED
  | ERR_NO_WORKERS_AVAILABLE
  | FsError

section \<open>Inference worker: class ModelManager (wrk-ai-inference/workers/lib/model-manager.js)\<close>

text \<open>
  A loaded model. Its \<open>predict\<close> function is not a field: what a call to it does is an
  input of the engine below (\<open>predict_outcome\<close>).
\<close>

record model =
  model_id :: string
  model_type :: string
  model_version :: string
  model_created :: int

text \<open>\<open>ModelManager.createMockModel\<close>; \<open>now\<close> is \<open>Date.now()\<close>.\<close>

definition createMockModel :: "string \<Rightarrow> int \<Rightarrow> model" where
  "createMockModel modelId now =
     \<lparr>model_id = modelId, model_type = ''onnx'', model_version = ''1.0.0'',
      model_created = now\<rparr>"

text \<open>
  \<open>ModelManager.loadModel\<close> over the manager's own \<open>modelStorage\<close> map: a hit is
  returned, a miss creates the mock model and stores it.
\<close>

definition mm_loadModel ::
  "string \<Rightarrow> int \<Rightarrow> (string \<rightharpoonup> model) \<Rightarrow> model \<times> (string \<rightharpoonup> model)" where
  "mm_loadModel modelId now modelStorage =
     (case modelStorage modelId of
        Some m \<Rightarrow> (m, modelStorage)
      | None \<Rightarrow>
          (let m = createMockModel modelId now in (m, modelStorage(modelId \<mapsto> m))))"

section \<open>Inference worker: class InferenceEngine (wrk-ai-inference/workers/lib/inference-engine.js)\<close>

text \<open>What the race of \<open>model.predict(input)\<close> against the timer ends with.\<close>

datatype predict_outcome =
    PredictReturns jsval
  | PredictThrows string
  | TimerWins

text \<open>The clock readings and the generated id of one engine call.\<close>

record engine_env =
  t_start :: int
  t_preprocessed :: int
  t_postprocessed :: int
  t_end :: int
  inference_id :: string
  outcome :: predict_outcome

record result_metadata =
  modelVersion :: string
  processedAt :: int

record processed_result =
  predictions :: jsval
  confidence :: jsval
  metadata :: result_metadata

record inference_result =
  inferenceId :: string
  result :: processed_result
  processingTime :: int
  ir_modelId :: string
  ir_timestamp :: int

text \<open>\<open>InferenceEngine.validateInput\<close>: only a falsy input is rejected.\<close>

definition validateInput :: "model \<Rightarrow> jsval \<Rightarrow> bool" where
  "validateInput m input = (if \<not> truthy input then False else True)"

text \<open>
  \<open>InferenceEngine.executeInference\<close>: the race, decided by the outcome given.
\<close>

definition executeInference :: "predict_outcome \<Rightarrow> error + jsval" where
  "executeInference oc =
     (case oc of
        PredictReturns raw \<Rightarrow> Inr raw
      | PredictThrows msg \<Rightarrow> Inl (PredictError msg)
      | TimerWins \<Rightarrow> Inl ERR_INFERENCE_TIMEOUT)"

text \<open>
  \<open>InferenceEngine.postprocessResult\<close>:
  \<^verbatim>\<open>predictions: result.predictions || result, confidence: result.confidence || 0.5\<close>.
  Reading a property of \<open>null\<close> or \<open>undefined\<close> throws.
\<close>

definition postprocessResult :: "jsval \<Rightarrow> model \<Rightarrow> int \<Rightarrow> error + processed_result" where
  "postprocessResult raw m now =
     (if raw = JNull \<or> raw = JUndefined then Inl TypeError
      else Inr \<lparr>predictions = js_or (get_prop raw ''predictions'') raw,
                confidence = js_or (get_prop raw ''confidence'') (JNum (1/2)),
                metadata = \<lparr>modelVersion = model_version m, processedAt = now\<rparr>\<rparr>)"

text \<open>
  \<open>InferenceEngine.runInference\<close>: validate, preprocess (which only wraps the input and
  cannot fail), execute, postprocess. The inference history map it also writes is read
  by the statistics only and is not part of the model.
\<close>

definition engine_runInference :: "model \<Rightarrow> jsval \<Rightarrow> engine_env \<Rightarrow> error + inference_result" where
  "engine_runInference m inputData env =
     (if \<not> validateInput m inputData then Inl ERR_INVALID_INPUT
      else case executeInference (outcome env) of
             Inl e \<Rightarrow> Inl e
           | Inr raw \<Rightarrow>
               (case postprocessResult raw m (t_postprocessed env) of
                  Inl e \<Rightarrow> Inl e
                | Inr processed \<Rightarrow>
                    Inr \<lparr>inferenceId = inference_id env, result = processed,
                         processingTime = t_end env - t_start env,
                         ir_modelId = model_id m, ir_timestamp = t_start env\<rparr>))"

section \<open>Inference worker: classes WrkAiInference (ai.inference.wrk.js) and AIInferenceService\<close>

text \<open>
  The worker's state: \<open>capacity.maxConcurrent\<close>, \<open>capacity.currentLoad\<close>,
  \<open>capacity.availableModels\<close> (a Set, kept in insertion order), \<open>modelCache\<close>, and the
  \<open>modelStorage\<close> map of the worker's model manager.
\<close>

record worker_state =
  maxConcurrent :: int
  currentLoad :: int
  availableModels :: "string list"
  modelCache :: "string \<rightharpoonup> model"
  modelStorage :: "string \<rightharpoonup> model"

text \<open>
  The constructor: \<open>maxConcurrent: conf.maxConcurrentInferences || 10\<close>; an absent or
  zero setting gives 10.
\<close>

definition new_worker :: "int option \<Rightarrow> worker_state" where
  "new_worker maxConcurrentInferences =
     \<lparr>maxConcurrent =
        (case maxConcurrentInferences of
           None \<Rightarrow> 10
         | Some n \<Rightarrow> if n = 0 then 10 else n),
      currentLoad = 0, availableModels = [], modelCache = Map.empty,
      modelStorage = Map.empty\<rparr>"

text \<open>\<open>Set.add\<close> and \<open>Set.delete\<close> on a Set kept as a list in insertion order.\<close>

definition set_add :: "'a \<Rightarrow> 'a list \<Rightarrow> 'a list" where
  "set_add x xs = (if x \<in> set xs then xs else xs @ [x])"

definition set_delete :: "'a \<Rightarrow> 'a list \<Rightarrow> 'a list" where
  "set_delete x xs = filter (\<lambda>y. y \<noteq> x) xs"

record envelope =
  success :: bool
  env_result :: inference_result
  env_modelId :: string
  env_timestamp :: int

record worker_env =
  engine :: engine_env
  t_load :: int
  t_envelope :: int

text \<open>
  The get-or-load step shared by both \<open>runInference\<close> bodies:
  \<^verbatim>\<open>let model = this.modelCache.get(modelId); if (!model) { model = await
  this.modelManager.loadModel(modelId); this.modelCache.set(modelId, model) }\<close>
\<close>

definition get_or_load :: "string \<Rightarrow> int \<Rightarrow> worker_state \<Rightarrow> model \<times> worker_state" where
  "get_or_load modelId now s =
     (case modelCache s modelId of
        Some m \<Rightarrow> (m, s)
      | None \<Rightarrow>
          (let (m, st) = mm_loadModel modelId now (modelStorage s)
           in (m, s\<lparr>modelStorage := st, modelCache := (modelCache s)(modelId \<mapsto> m)\<rparr>)))"

text \<open>
  \<open>WrkAiInference.runInference\<close> (ai.inference.wrk.js). Both checks and the increment
  stand inside the \<open>try\<close>, and the \<open>catch\<close> decrements \<open>currentLoad\<close> for every
  error, also for the two thrown before the increment.
\<close>

definition wrk_catch :: "error \<Rightarrow> worker_state \<Rightarrow> (error + envelope) \<times> worker_state" where
  "wrk_catch e s = (Inl e, s\<lparr>currentLoad := currentLoad s - 1\<rparr>)"

definition runInference ::
  "string \<Rightarrow> jsval \<Rightarrow> worker_env \<Rightarrow> worker_state \<Rightarrow> (error + envelope) \<times> worker_state" where
  "runInference modelId inputData env s =
     (if currentLoad s \<ge> maxConcurrent s then wrk_catch ERR_CAPACITY_EXCEEDED s
      else if modelId \<notin> set (availableModels s) then wrk_catch ERR_MODEL_NOT_AVAILABLE s
      else
        (let s1 = s\<lparr>currentLoad := currentLoad s + 1\<rparr>;
             (m, s2) = get_or_load modelId (t_load env) s1
         in case engine_runInference m inputData (engine env) of
              Inl e \<Rightarrow> wrk_catch e s2
            | Inr r \<Rightarrow>
                (Inr \<lparr>success = True, env_result = r, env_modelId = modelId,
                      env_timestamp = t_envelope env\<rparr>,
                 s2\<lparr>currentLoad := currentLoad s2 - 1\<rparr>)))"

text \<open>
  \<open>AIInferenceService.runInference\<close> (the standalone service): the two checks and the
  increment come before the \<open>try\<close>, and the decrement is its \<open>finally\<close>. Its two
  errors have the messages \<open>Capacity exceeded\<close> and \<open>Model not available\<close>; they are
  given the constructors of the worker's.
\<close>

definition svc_runInference ::
  "string \<Rightarrow> jsval \<Rightarrow> worker_env \<Rightarrow> worker_state \<Rightarrow> (error + envelope) \<times> worker_state" where
  "svc_runInference modelId inputData env s =
     (if currentLoad s \<ge> maxConcurrent s then (Inl ERR_CAPACITY_EXCEEDED, s)
      else if modelId \<notin> set (availableModels s) then (Inl ERR_MODEL_NOT_AVAILABLE, s)
      else
        (let s1 = s\<lparr>currentLoad := currentLoad s + 1\<rparr>;
             (m, s2) = get_or_load modelId (t_load env) s1;
             s3 = s2\<lparr>currentLoad := currentLoad s2 - 1\<rparr>
         in case engine_runInference m inputData (engine env) of
              Inl e \<Rightarrow> (Inl e, s3)
            | Inr r \<Rightarrow>
                (Inr \<lparr>success = True, env_result = r, env_modelId = modelId,
                      env_timestamp = t_envelope env\<rparr>, s3)))"

text \<open>
  \<open>WrkAiInference.loadModel\<close>: nothing to do when the cache has the model; otherwise
  load it, cache it and add it to \<open>availableModels\<close>. The result is the message.
\<close>

definition loadModel :: "string \<Rightarrow> int \<Rightarrow> worker_state \<Rightarrow> string \<times> worker_state" where
  "loadModel modelId now s =
     (if modelId \<in> dom (modelCache s) then (''Model already loaded'', s)
      else
        (let (m, st) = mm_loadModel modelId now (modelStorage s)
         in (''Model loaded successfully'',
             s\<lparr>modelStorage := st, modelCache := (modelCache s)(modelId \<mapsto> m),
               availableModels := set_add modelId (availableModels s)\<rparr>)))"

text \<open>\<open>WrkAiInference.unloadModel\<close>\<close>

definition unloadModel :: "string \<Rightarrow> worker_state \<Rightarrow> string \<times> worker_state" where
  "unloadModel modelId s =
     (if modelId \<in> dom (modelCache s)
      then (''Model unloaded successfully'',
            s\<lparr>modelCache := (modelCache s)(modelId := None),
              availableModels := set_delete modelId (availableModels s)\<rparr>)
      else (''Model not loaded'', s))"

text \<open>\<open>WrkAiInference.checkCapacity\<close>, the fields that depend on the state.\<close>

record capacity_report =
  cr_maxConcurrent :: int
  cr_currentLoad :: int
  cr_available :: bool
  cr_availableModels :: "string list"
  cr_modelAvailable :: "bool option"
  cr_modelLoaded :: "bool option"

definition checkCapacity :: "string option \<Rightarrow> worker_state \<Rightarrow> capacity_report" where
  "checkCapacity modelId s =
     \<lparr>cr_maxConcurrent = maxConcurrent s,
      cr_currentLoad = currentLoad s,
      cr_available = (currentLoad s < maxConcurrent s),
      cr_availableModels = availableModels s,
      cr_modelAvailable =
        (case modelId of None \<Rightarrow> None
         | Some mid \<Rightarrow> if mid = [] then None else Some (mid \<in> set (availableModels s))),
      cr_modelLoaded =
        (case modelId of None \<Rightarrow> None
         | Some mid \<Rightarrow> if mid = [] then None else Some (mid \<in> dom (modelCache s)))\<rparr>"

section \<open>Orchestrator: class ServiceRegistry (wrk-orchestrator/workers/lib/service-registry.js)\<close>

text \<open>
  What a worker sends as \<open>capabilities\<close>. The registry reads it twice: as an array
  (\<open>Array.isArray\<close>) of capability tags, and through its \<open>models\<close> property. A plain
  array has no \<open>models\<close> property; any other truthy value does not pass
  \<open>Array.isArray\<close>. A truthy \<open>models\<close> is iterated by \<open>for ... of\<close>, which
  throws a TypeError on a value that is not iterable.
\<close>

datatype models_prop = ModelsAbsent | ModelsList "string list" | ModelsNotIterable

datatype capabilities = CapsFalsy | CapsArray "string list" | CapsObject models_prop

record worker_info =
  wi_id :: string
  wi_address :: string
  wi_capabilities :: capabilities
  wi_registeredAt :: int
  wi_lastSeen :: int
  wi_status :: string

text \<open>
  The three Maps of the registry. An index maps a key to a Set of worker ids, kept in
  insertion order.
\<close>

record registry =
  workers :: "string \<rightharpoonup> worker_info"
  modelIndex :: "string \<rightharpoonup> string list"
  capabilityIndex :: "string \<rightharpoonup> string list"

definition new_registry :: registry where
  "new_registry = \<lparr>workers = Map.empty, modelIndex = Map.empty, capabilityIndex = Map.empty\<rparr>"

text \<open>
  \<^verbatim>\<open>if (!index.has(k)) index.set(k, new Set()); index.get(k).add(id)\<close>
\<close>

definition index_add :: "string \<Rightarrow> string \<Rightarrow> (string \<rightharpoonup> string list) \<Rightarrow> (string \<rightharpoonup> string list)" where
  "index_add wid k idx =
     (case idx k of
        None \<Rightarrow> idx(k \<mapsto> set_add wid [])
      | Some ids \<Rightarrow> idx(k \<mapsto> set_add wid ids))"

text \<open>
  \<^verbatim>\<open>const s = index.get(k); if (s) { s.delete(id); if (s.size === 0) index.delete(k) }\<close>
\<close>

definition index_remove :: "string \<Rightarrow> string \<Rightarrow> (string \<rightharpoonup> string list) \<Rightarrow> (string \<rightharpoonup> string list)" where
  "index_remove wid k idx =
     (case idx k of
        None \<Rightarrow> idx
      | Some ids \<Rightarrow>
          (let ids' = set_delete wid ids
           in if ids' = [] then idx(k := None) else idx(k \<mapsto> ids')))"

text \<open>
  \<open>ServiceRegistry.registerWorker\<close>. The main map is written first, then the
  capability index, then the model index; a \<open>models\<close> value that cannot be iterated
  throws after the first two. The result is the error thrown, if any, and the registry
  as the call leaves it.
\<close>

definition registerWorker :: "worker_info \<Rightarrow> registry \<Rightarrow> error option \<times> registry" where
  "registerWorker workerInfo r =
     (let wid = wi_id workerInfo;
          r1 = r\<lparr>workers := (workers r)(wid \<mapsto> workerInfo)\<rparr>;
          r2 = (case wi_capabilities workerInfo of
                  CapsArray caps \<Rightarrow>
                    r1\<lparr>capabilityIndex := fold (index_add wid) caps (capabilityIndex r1)\<rparr>
                | _ \<Rightarrow> r1)
      in case wi_capabilities workerInfo of
           CapsObject (ModelsList ms) \<Rightarrow>
             (None, r2\<lparr>modelIndex := fold (index_add wid) ms (modelIndex r2)\<rparr>)
         | CapsObject ModelsNotIterable \<Rightarrow> (Some TypeError, r2)
         | _ \<Rightarrow> (None, r2))"

text \<open>
  \<open>ServiceRegistry.unregisterWorker\<close>. An unknown id returns at once. The index
  entries removed are those of the capabilities of the worker object now stored under
  the id; the main map is written last.
\<close>

definition unregisterWorker :: "string \<Rightarrow> registry \<Rightarrow> error option \<times> registry" where
  "unregisterWorker workerId r =
     (case workers r workerId of
        None \<Rightarrow> (None, r)
      | Some worker \<Rightarrow>
          (let r1 = (case wi_capabilities worker of
                       CapsArray caps \<Rightarrow>
                         r\<lparr>capabilityIndex :=
                             fold (index_remove workerId) caps (capabilityIndex r)\<rparr>
                     | _ \<Rightarrow> r)
           in case wi_capabilities worker of
                CapsObject ModelsNotIterable \<Rightarrow> (Some TypeError, r1)
              | CapsObject (ModelsList ms) \<Rightarrow>
                  (None, r1\<lparr>modelIndex := fold (index_remove workerId) ms (modelIndex r1),
                            workers := (workers r1)(workerId := None)\<rparr>)
              | _ \<Rightarrow> (None, r1\<lparr>workers := (workers r1)(workerId := None)\<rparr>)))"

text \<open>
  The loop shared by \<open>getWorkersForModel\<close> and \<open>getWorkersByCapability\<close>: the ids of
  the Set in order, keeping those whose worker exists with status \<open>active\<close>.
\<close>

definition active_workers :: "registry \<Rightarrow> string list \<Rightarrow> worker_info list" where
  "active_workers r workerIds =
     List.map_filter
       (\<lambda>workerId. case workers r workerId of
                      None \<Rightarrow> None
                    | Some worker \<Rightarrow> if wi_status worker = ''active'' then Some worker else None)
       workerIds"

definition getWorkersForModel :: "string \<Rightarrow> registry \<Rightarrow> worker_info list" where
  "getWorkersForModel modelId r =
     active_workers r (case modelIndex r modelId of None \<Rightarrow> [] | Some ids \<Rightarrow> ids)"

definition getWorkersByCapability :: "string \<Rightarrow> registry \<Rightarrow> worker_info list" where
  "getWorkersByCapability capability r =
     active_workers r (case capabilityIndex r capability of None \<Rightarrow> [] | Some ids \<Rightarrow> ids)"

text \<open>A sequence of calls on the registry; an error thrown by one does not stop the next.\<close>

datatype registry_call = Register worker_info | Unregister string

fun registry_step :: "registry_call \<Rightarrow> registry \<Rightarrow> registry" where
  "registry_step (Register workerInfo) r = snd (registerWorker workerInfo r)"
| "registry_step (Unregister workerId) r = snd (unregisterWorker workerId r)"

definition registry_run :: "registry_call list \<Rightarrow> registry \<Rightarrow> registry" where
  "registry_run calls r = fold registry_step calls r"

text \<open>
  A dangling index entry: an id in the Set of some key of an index that is not a key of
  the main map.
\<close>

definition dangling :: "registry \<Rightarrow> string \<Rightarrow> string \<Rightarrow> bool" where
  "dangling r k wid =
     (((case capabilityIndex r k of None \<Rightarrow> False | Some ids \<Rightarrow> wid \<in> set ids)
       \<or> (case modelIndex r k of None \<Rightarrow> False | Some ids \<Rightarrow> wid \<in> set ids))
      \<and> workers r wid = None)"

section \<open>Orchestrator: class HealthMonitor (in wrk-orchestrator/worker.js)\<close>

record monitored_worker =
  mw_id :: string
  mw_address :: string
  mw_status :: string
  mw_lastCheck :: int
  mw_consecutiveFailures :: int
  mw_totalChecks :: int
  mw_successfulChecks :: int

record health_check_result =
  hc_workerId :: string
  hc_status :: string
  hc_checkDuration :: int
  hc_consecutiveFailures :: int
  hc_lastCheck :: int
  hc_error :: "string option"

record health_monitor =
  monitoredWorkers :: "string \<rightharpoonup> monitored_worker"
  healthChecks :: "string \<rightharpoonup> health_check_result"

definition new_health_monitor :: health_monitor where
  "new_health_monitor = \<lparr>monitoredWorkers = Map.empty, healthChecks = Map.empty\<rparr>"

text \<open>\<open>HealthMonitor.startMonitoring\<close>: a fresh record of its own for the worker.\<close>

definition startMonitoring :: "string \<Rightarrow> string \<Rightarrow> int \<Rightarrow> health_monitor \<Rightarrow> health_monitor" where
  "startMonitoring workerId address now hm =
     hm\<lparr>monitoredWorkers := (monitoredWorkers hm)(workerId \<mapsto>
          \<lparr>mw_id = workerId, mw_address = address, mw_status = ''healthy'',
           mw_lastCheck = now, mw_consecutiveFailures = 0, mw_totalChecks = 0,
           mw_successfulChecks = 0\<rparr>)\<rparr>"

text \<open>
  The clock readings of one probe and what the probe did: \<open>None\<close> when it resolved,
  the message of its error when it threw.
\<close>

record probe =
  p_start :: int
  p_checked :: int
  p_end :: int
  p_failure :: "string option"

text \<open>
  \<open>HealthMonitor.performHealthCheck\<close>. A probe that passes resets
  \<open>consecutiveFailures\<close>, counts a successful check and stamps \<open>lastCheck\<close>; it does
  not write \<open>status\<close>. One that fails counts a failure and, from the third in a row,
  sets the \<open>status\<close> of the monitor's record to \<open>unhealthy\<close>. Only the monitor's own
  maps are written.
\<close>

definition performHealthCheck ::
  "string \<Rightarrow> probe \<Rightarrow> health_monitor \<Rightarrow> (error + health_check_result) \<times> health_monitor" where
  "performHealthCheck workerId p hm =
     (case monitoredWorkers hm workerId of
        None \<Rightarrow> (Inl ERR_WORKER_NOT_MONITORED, hm)
      | Some worker \<Rightarrow>
          (let w1 = (case p_failure p of
                       None \<Rightarrow>
                         worker\<lparr>mw_consecutiveFailures := 0,
                                mw_successfulChecks := mw_successfulChecks worker + 1,
                                mw_lastCheck := p_checked p\<rparr>
                     | Some msg \<Rightarrow>
                         (let w = worker\<lparr>mw_consecutiveFailures :=
                                            mw_consecutiveFailures worker + 1\<rparr>
                          in if mw_consecutiveFailures w \<ge> 3
                             then w\<lparr>mw_status := ''unhealthy''\<rparr> else w));
               w2 = w1\<lparr>mw_totalChecks := mw_totalChecks w1 + 1\<rparr>;
               res = \<lparr>hc_workerId = workerId,
                      hc_status = (case p_failure p of None \<Rightarrow> ''healthy''
                                   | Some msg \<Rightarrow> ''unhealthy''),
                      hc_checkDuration = p_end p - p_start p,
                      hc_consecutiveFailures = mw_consecutiveFailures w2,
                      hc_lastCheck = mw_lastCheck w2,
                      hc_error = p_failure p\<rparr>
           in (Inr res,
               hm\<lparr>monitoredWorkers := (monitoredWorkers hm)(workerId \<mapsto> w2),
                  healthChecks := (healthChecks hm)(workerId \<mapsto> res)\<rparr>)))"

section \<open>JavaScript numbers in the load balancer: IEEE 754 binary64\<close>

text \<open>
  \<open>LoadBalancer.selectWeighted\<close> divides, multiplies, adds and subtracts JavaScript
  numbers, and which worker it returns depends on how each result is rounded. A number is
  therefore modelled as a binary64 value: a finite one carries its exact rational value,
  beside the two infinities and \<open>NaN\<close>. An operation on finite values computes the exact
  rational result and rounds it with \<open>fl\<close>. The two zeros are one value here: the sign of a
  zero shows only in a division by it, and \<open>selectWeighted\<close> divides by \<open>requestCount\<close>
  only when it is greater than 0 and by \<open>avgTime\<close> only when it is truthy.
\<close>

datatype double = Finite rat | PosInf | NegInf | NaN

text \<open>
  The binary exponent of a positive rational \<open>x\<close>: the \<open>e\<close> with
  \<open>2 powi e \<le> x < 2 powi (e + 1)\<close>, found from the bit lengths of numerator and
  denominator.
\<close>

definition ilog2 :: "rat \<Rightarrow> int" where
  "ilog2 x = (case quotient_of x of (a, b) \<Rightarrow>
               (let e = bitlen a - bitlen b in if 2 powi e \<le> x then e else e - 1))"

text \<open>Rounding to the nearest integer, a tie going to the even one.\<close>

definition round_half_even :: "rat \<Rightarrow> int" where
  "round_half_even x =
     (let f = \<lfloor>x\<rfloor>; d = x - of_int f
      in if d < 1 / 2 then f else if 1 / 2 < d then f + 1 else if even f then f else f + 1)"

text \<open>
  Rounding of an exact result to binary64, round-to-nearest, ties-to-even: the result is
  a multiple of \<open>2 powi (e - 52)\<close>, where \<open>e\<close> is the exponent of \<open>x\<close> and at least
  \<open>-1022\<close> (below that the values are subnormal, spaced \<open>2 powi (-1074)\<close> apart);
  a result of magnitude \<open>2 powi 1024\<close> or more overflows to an infinity.
\<close>

definition fl :: "rat \<Rightarrow> double" where
  "fl x =
     (if x = 0 then Finite 0
      else (let e = max (ilog2 \<bar>x\<bar>) (- 1022);
                q = 2 powi (e - 52);
                y = of_int (round_half_even (x / q)) * q
            in if 2 powi 1024 \<le> \<bar>y\<bar> then (if 0 < x then PosInf else NegInf) else Finite y))"

text \<open>\<open>a + b\<close>\<close>

fun dadd :: "double \<Rightarrow> double \<Rightarrow> double" where
  "dadd NaN _ = NaN"
| "dadd _ NaN = NaN"
| "dadd PosInf NegInf = NaN"
| "dadd NegInf PosInf = NaN"
| "dadd PosInf _ = PosInf"
| "dadd _ PosInf = PosInf"
| "dadd NegInf _ = NegInf"
| "dadd _ NegInf = NegInf"
| "dadd (Finite a) (Finite b) = fl (a + b)"

text \<open>\<open>- a\<close>, and \<open>a - b\<close>, which is \<open>a + (- b)\<close>.\<close>

fun dneg :: "double \<Rightarrow> double" where
  "dneg (Finite a) = Finite (- a)"
| "dneg PosInf = NegInf"
| "dneg NegInf = PosInf"
| "dneg NaN = NaN"

definition dsub :: "double \<Rightarrow> double \<Rightarrow> double" where
  "dsub a b = dadd a (dneg b)"

text \<open>\<open>a * b\<close>\<close>

fun dmul :: "double \<Rightarrow> double \<Rightarrow> double" where
  "dmul (Finite a) (Finite b) = fl (a * b)"
| "dmul NaN _ = NaN"
| "dmul _ NaN = NaN"
| "dmul (Finite a) PosInf = (if a = 0 then NaN else if 0 < a then PosInf else NegInf)"
| "dmul (Finite a) NegInf = (if a = 0 then NaN else if 0 < a then NegInf else PosInf)"
| "dmul PosInf (Finite b) = (if b = 0 then NaN else if 0 < b then PosInf else NegInf)"
| "dmul NegInf (Finite b) = (if b = 0 then NaN else if 0 < b then NegInf else PosInf)"
| "dmul PosInf PosInf = PosInf"
| "dmul PosInf NegInf = NegInf"
| "dmul NegInf PosInf = NegInf"
| "dmul NegInf NegInf = PosInf"

text \<open>\<open>a / b\<close>; a zero divisor is taken as \<open>+0\<close>.\<close>

fun ddiv :: "double \<Rightarrow> double \<Rightarrow> double" where
  "ddiv (Finite a) (Finite b) =
     (if b = 0 then (if a = 0 then NaN else if 0 < a then PosInf else NegInf) else fl (a / b))"
| "ddiv NaN _ = NaN"
| "ddiv _ NaN = NaN"
| "ddiv (Finite a) _ = Finite 0"
| "ddiv PosInf (Finite b) = (if 0 \<le> b then PosInf else NegInf)"
| "ddiv NegInf (Finite b) = (if 0 \<le> b then NegInf else PosInf)"
| "ddiv _ _ = NaN"

text \<open>\<open>a <= b\<close> and \<open>a > b\<close>: both are false when an operand is \<open>NaN\<close>.\<close>

fun dle :: "double \<Rightarrow> double \<Rightarrow> bool" where
  "dle NaN _ = False"
| "dle _ NaN = False"
| "dle NegInf _ = True"
| "dle _ PosInf = True"
| "dle (Finite a) (Finite b) = (a \<le> b)"
| "dle _ _ = False"

definition dgt :: "double \<Rightarrow> double \<Rightarrow> bool" where
  "dgt a b \<longleftrightarrow> dle b a \<and> \<not> dle a b"

text \<open>Truthiness of a number: zero and \<open>NaN\<close> are falsy.\<close>

fun dtruthy :: "double \<Rightarrow> bool" where
  "dtruthy (Finite a) = (a \<noteq> 0)"
| "dtruthy NaN = False"
| "dtruthy _ = True"






section \<open>Orchestrator: class LoadBalancer (wrk-orchestrator/workers/lib/load-balancer.js)\<close>

text \<open>
  The statistics kept per worker. The counters and times that \<open>selectWeighted\<close> computes
  with are JavaScript numbers, binary64 values.
\<close>

record worker_stats =
  requestCount :: double
  totalProcessingTime :: double
  averageProcessingTime :: double
  successCount :: double
  failureCount :: int
  lastRequestTime :: "int option"
  ws_currentLoad :: int

record load_balancer =
  workerStats :: "string \<rightharpoonup> worker_stats"
  roundRobinIndex :: "string \<rightharpoonup> nat"

definition new_load_balancer :: load_balancer where
  "new_load_balancer = \<lparr>workerStats = Map.empty, roundRobinIndex = Map.empty\<rparr>"

text \<open>The statistics \<open>addWorker\<close> starts a worker with.\<close>

definition initial_stats :: worker_stats where
  "initial_stats =
     \<lparr>requestCount = Finite 0, totalProcessingTime = Finite 0,
      averageProcessingTime = Finite 0, successCount = Finite 0, failureCount = 0,
      lastRequestTime = None, ws_currentLoad = 0\<rparr>"

text \<open>\<open>LoadBalancer.addWorker\<close>\<close>

definition addWorker :: "worker_info \<Rightarrow> load_balancer \<Rightarrow> load_balancer" where
  "addWorker worker lb =
     lb\<lparr>workerStats := (workerStats lb)(wi_id worker \<mapsto> initial_stats),
        roundRobinIndex := (roundRobinIndex lb)(wi_id worker \<mapsto> 0)\<rparr>"

text \<open>\<open>LoadBalancer.removeWorker\<close>\<close>

definition removeWorker :: "string \<Rightarrow> load_balancer \<Rightarrow> load_balancer" where
  "removeWorker workerId lb =
     lb\<lparr>workerStats := (workerStats lb)(workerId := None),
        roundRobinIndex := (roundRobinIndex lb)(workerId := None)\<rparr>"

text \<open>
  The weight \<open>selectWeighted\<close> gives one worker, from its statistics if it has any:
  \<^verbatim>\<open>successRate = stats.requestCount > 0 ? stats.successCount / stats.requestCount : 1\<close>,
  \<^verbatim>\<open>avgTime = stats.averageProcessingTime || 1000\<close>,
  \<^verbatim>\<open>weight = successRate * (1000 / avgTime)\<close>.
\<close>

definition worker_weight :: "worker_stats option \<Rightarrow> double" where
  "worker_weight stats =
     (case stats of
        None \<Rightarrow> Finite 1
      | Some st \<Rightarrow>
          (let successRate =
                 (if dgt (requestCount st) (Finite 0)
                  then ddiv (successCount st) (requestCount st) else Finite 1);
               avgTime =
                 (if dtruthy (averageProcessingTime st) then averageProcessingTime st
                  else Finite 1000)
           in dmul successRate (ddiv (Finite 1000) avgTime)))"

text \<open>\<^verbatim>\<open>weightedWorkers = workers.map(worker => ({ worker, weight }))\<close>\<close>

definition weightedWorkers :: "worker_info list \<Rightarrow> load_balancer \<Rightarrow> (worker_info \<times> double) list" where
  "weightedWorkers ws lb =
     map (\<lambda>worker. (worker, worker_weight (workerStats lb (wi_id worker)))) ws"

text \<open>\<^verbatim>\<open>totalWeight = weightedWorkers.reduce((sum, w) => sum + w.weight, 0)\<close>\<close>

definition totalWeight :: "('w \<times> double) list \<Rightarrow> double" where
  "totalWeight wws = foldl (\<lambda>sum w. dadd sum (snd w)) (Finite 0) wws"

text \<open>
  The selection loop over the weighted workers:
  \<^verbatim>\<open>for (const { worker, weight } of weightedWorkers) { random -= weight;
  if (random <= 0) return worker }\<close>; \<open>None\<close> when the loop ends without a return.
\<close>

fun weighted_pick :: "double \<Rightarrow> ('w \<times> double) list \<Rightarrow> 'w option" where
  "weighted_pick random [] = None"
| "weighted_pick random ((worker, weight) # rest) =
     (let random' = dsub random weight
      in if dle random' (Finite 0) then Some worker else weighted_pick random' rest)"

text \<open>
  The selection from a list of weighted workers, with \<open>rnd\<close> the value of
  \<open>Math.random()\<close>. When the loop returns nothing the result is \<open>workers[0]\<close>, which is
  \<open>undefined\<close> (\<open>None\<close>) for an empty list.
\<close>

definition select_from_weights :: "('w \<times> double) list \<Rightarrow> double \<Rightarrow> 'w option" where
  "select_from_weights wws rnd =
     (case weighted_pick (dmul rnd (totalWeight wws)) wws of
        Some worker \<Rightarrow> Some worker
      | None \<Rightarrow> (case wws of [] \<Rightarrow> None | w # _ \<Rightarrow> Some (fst w)))"

text \<open>\<open>LoadBalancer.selectWeighted\<close>\<close>

definition selectWeighted :: "worker_info list \<Rightarrow> double \<Rightarrow> load_balancer \<Rightarrow> worker_info option" where
  "selectWeighted ws rnd lb = select_from_weights (weightedWorkers ws lb) rnd"




section \<open>Orchestrator: class OrchestratorService (wrk-orchestrator/worker.js)\<close>

record orchestrator =
  serviceRegistry :: registry
  loadBalancer :: load_balancer
  healthMonitor :: health_monitor
  orch_workers :: "string \<rightharpoonup> worker_info"

definition new_orchestrator :: orchestrator where
  "new_orchestrator =
     \<lparr>serviceRegistry = new_registry, loadBalancer = new_load_balancer,
      healthMonitor = new_health_monitor, orch_workers = Map.empty\<rparr>"

text \<open>
  \<open>OrchestratorService.registerWorker\<close>: the worker object is built with
  \<open>capabilities || []\<close> and status \<open>active\<close>, and handed to the registry, the load
  balancer and the health monitor in this order; an error of the registry ends the call
  there.
\<close>

definition orch_registerWorker ::
  "string \<Rightarrow> string \<Rightarrow> capabilities \<Rightarrow> int \<Rightarrow> orchestrator \<Rightarrow> error option \<times> orchestrator" where
  "orch_registerWorker workerId address caps now orch =
     (let workerInfo =
            \<lparr>wi_id = workerId, wi_address = address,
             wi_capabilities = (case caps of CapsFalsy \<Rightarrow> CapsArray [] | _ \<Rightarrow> caps),
             wi_registeredAt = now, wi_lastSeen = now, wi_status = ''active''\<rparr>
      in case registerWorker workerInfo (serviceRegistry orch) of
           (Some e, r) \<Rightarrow> (Some e, orch\<lparr>serviceRegistry := r\<rparr>)
         | (None, r) \<Rightarrow>
             (None,
              orch\<lparr>serviceRegistry := r,
                   loadBalancer := addWorker workerInfo (loadBalancer orch),
                   healthMonitor := startMonitoring workerId address now (healthMonitor orch),
                   orch_workers := (orch_workers orch)(workerId \<mapsto> workerInfo)\<rparr>))"

text \<open>
  One tick of the health loop for one worker: \<open>healthMonitor.performHealthCheck\<close>. The
  loop hands its results to nobody, so only the monitor changes.
\<close>

definition orch_healthCheck :: "string \<Rightarrow> probe \<Rightarrow> orchestrator \<Rightarrow> orchestrator" where
  "orch_healthCheck workerId p orch =
     orch\<lparr>healthMonitor := snd (performHealthCheck workerId p (healthMonitor orch))\<rparr>"

text \<open>
  The first step of \<open>OrchestratorService.findAvailableWorker\<close>: the candidates are
  \<open>serviceRegistry.getWorkersForModel(modelId)\<close>, and none is an error.
\<close>

definition orch_candidates :: "string \<Rightarrow> orchestrator \<Rightarrow> error + worker_info list" where
  "orch_candidates modelId orch =
     (let availableWorkers = getWorkersForModel modelId (serviceRegistry orch)
      in if length availableWorkers = 0 then Inl ERR_NO_WORKERS_AVAILABLE
         else Inr availableWorkers)"

section \<open>Gateway: the rate limiter of ApiGatewayService and WrkApiGateway (wrk-api-gateway/worker.js)\<close>

text \<open>
  \<open>conf.rateLimit\<close>: whether \<open>enabled\<close> is truthy, and the two numbers, each absent or
  set.
\<close>

record rate_limit_conf =
  rl_enabled :: bool
  rl_windowMs :: "int option"
  rl_maxRequests :: "int option"

text \<open>\<open>x || d\<close> for a number that may be absent: absent and 0 give the default.\<close>

definition num_or :: "int option \<Rightarrow> int \<Rightarrow> int" where
  "num_or x d = (case x of None \<Rightarrow> d | Some n \<Rightarrow> if n = 0 then d else n)"

definition windowMs :: "rate_limit_conf \<Rightarrow> int" where
  "windowMs conf = num_or (rl_windowMs conf) 60000"

definition maxRequests :: "rate_limit_conf \<Rightarrow> int" where
  "maxRequests conf = num_or (rl_maxRequests conf) 100"

record client_data =
  requests :: int
  windowStart :: int

type_synonym rate_limiter = "string \<rightharpoonup> client_data"

text \<open>
  \<open>checkRateLimit\<close>, for the client key \<open>clientId\<close> at \<open>now = Date.now()\<close>: whether the
  request is allowed, and the limiter map after the call.
\<close>

definition checkRateLimit ::
  "rate_limit_conf \<Rightarrow> string \<Rightarrow> int \<Rightarrow> rate_limiter \<Rightarrow> bool \<times> rate_limiter" where
  "checkRateLimit conf clientId now rl =
     (if \<not> rl_enabled conf then (True, rl)
      else case rl clientId of
             None \<Rightarrow> (True, rl(clientId \<mapsto> \<lparr>requests = 1, windowStart = now\<rparr>))
           | Some clientData \<Rightarrow>
               if now - windowStart clientData > windowMs conf
               then (True, rl(clientId \<mapsto> \<lparr>requests = 1, windowStart = now\<rparr>))
               else if requests clientData \<ge> maxRequests conf then (False, rl)
               else (True, rl(clientId \<mapsto> clientData\<lparr>requests := requests clientData + 1\<rparr>)))"

text \<open>
  One run of the cleanup timer of \<open>startRateLimitCleanup\<close> at \<open>now\<close>: every entry whose
  window began more than two windows ago is deleted.
\<close>

definition rateLimitCleanup :: "rate_limit_conf \<Rightarrow> int \<Rightarrow> rate_limiter \<Rightarrow> rate_limiter" where
  "rateLimitCleanup conf now rl =
     (\<lambda>clientId. case rl clientId of
                    None \<Rightarrow> None
                  | Some data \<Rightarrow>
                      if now - windowStart data > windowMs conf * 2 then None else Some data)"

text \<open>What happens to the limiter over time: requests of clients and runs of the cleanup.\<close>

datatype limiter_event = Request string int | Cleanup int

fun event_time :: "limiter_event \<Rightarrow> int" where
  "event_time (Request clientId now) = now"
| "event_time (Cleanup now) = now"

fun limiter_step :: "rate_limit_conf \<Rightarrow> limiter_event \<Rightarrow> rate_limiter \<Rightarrow> rate_limiter" where
  "limiter_step conf (Request clientId now) rl = snd (checkRateLimit conf clientId now rl)"
| "limiter_step conf (Cleanup now) rl = rateLimitCleanup conf now rl"

definition limiter_run :: "rate_limit_conf \<Rightarrow> limiter_event list \<Rightarrow> rate_limiter \<Rightarrow> rate_limiter" where
  "limiter_run conf evs rl = fold (limiter_step conf) evs rl"

text \<open>
  A request of client \<open>c\<close> that comes after the window beginning at \<open>ws\<close> has run out.
\<close>

fun resets_window :: "rate_limit_conf \<Rightarrow> string \<Rightarrow> int \<Rightarrow> limiter_event \<Rightarrow> bool" where
  "resets_window conf c ws (Request clientId now) = (clientId = c \<and> now - ws > windowMs conf)"
| "resets_window conf c ws (Cleanup now) = False"

section \<open>Model manager: class ModelStorage (in wrk-model-manager/worker.js)\<close>

text \<open>
  A \<open>Buffer\<close> is its bytes and a file system is the content of each path. The two
  library functions the storage calls are parameters: the SHA-256 hex digest of
  \<open>crypto\<close> and \<open>path.join\<close>.
\<close>

type_synonym buffer = string

type_synonym filesystem = "string \<rightharpoonup> buffer"

record node_lib =
  sha256hex :: "string \<Rightarrow> string"
  path_join :: "string \<Rightarrow> string \<Rightarrow> string"

text \<open>The calls the \<open>fs\<close> module offers that matter here, as a log entry each.\<close>

datatype fs_call =
    FsWriteFile string buffer
  | FsReadFile string
  | FsRename string string
  | FsUnlink string

text \<open>
  What \<open>fs.writeFile(path, data)\<close> ends with: it resolves with the data under the
  path, or it rejects, leaving under the path whatever the failed write left there.
\<close>

datatype write_outcome = Written | Rejected "buffer option"

definition fs_writeFile ::
  "write_outcome \<Rightarrow> string \<Rightarrow> buffer \<Rightarrow> filesystem \<Rightarrow> (error + unit) \<times> filesystem" where
  "fs_writeFile wo path data fs =
     (case wo of
        Written \<Rightarrow> (Inr (), fs(path \<mapsto> data))
      | Rejected left \<Rightarrow> (Inl FsError, fs(path := left)))"

text \<open>\<open>fs.readFile(path)\<close>: the content, or a rejection when there is no such file.\<close>

definition fs_readFile :: "string \<Rightarrow> filesystem \<Rightarrow> error + buffer" where
  "fs_readFile path fs = (case fs path of None \<Rightarrow> Inl FsError | Some data \<Rightarrow> Inr data)"

text \<open>
  The storage object: \<open>storagePath\<close> and \<open>maxModelSize\<close>, the number \<open>parseSize\<close>
  gave the constructor (a product of a decimal and a unit, so not always whole).
\<close>

record model_storage =
  storagePath :: string
  maxModelSize :: real

text \<open>\<open>ModelStorage.generateStorageKey\<close>\<close>

definition generateStorageKey :: "node_lib \<Rightarrow> string \<Rightarrow> string" where
  "generateStorageKey lib modelId = sha256hex lib modelId @ ''.model''"

text \<open>\<open>ModelStorage.calculateChecksum\<close>\<close>

definition calculateChecksum :: "node_lib \<Rightarrow> buffer \<Rightarrow> string" where
  "calculateChecksum lib data = sha256hex lib data"

record storage_result =
  sr_key :: string
  sr_path :: string
  sr_checksum :: string
  sr_size :: nat

text \<open>
  \<open>ModelStorage.storeModel\<close>: the size check, then the key, the path and the checksum,
  then one \<open>fs.writeFile\<close> of the data to the path. The result is what the call
  returns or throws, the file system after it, and the \<open>fs\<close> calls it made.
\<close>

definition storeModel ::
  "node_lib \<Rightarrow> model_storage \<Rightarrow> write_outcome \<Rightarrow> string \<Rightarrow> buffer \<Rightarrow> filesystem
     \<Rightarrow> (error + storage_result) \<times> filesystem \<times> fs_call list" where
  "storeModel lib st wo modelId modelData fs =
     (if real (length modelData) > maxModelSize st then (Inl ERR_MODEL_TOO_LARGE, fs, [])
      else
        (let storageKey = generateStorageKey lib modelId;
             filePath = path_join lib (storagePath st) storageKey;
             checksum = calculateChecksum lib modelData
         in case fs_writeFile wo filePath modelData fs of
              (Inl e, fs') \<Rightarrow> (Inl e, fs', [FsWriteFile filePath modelData])
            | (Inr u, fs') \<Rightarrow>
                (Inr \<lparr>sr_key = storageKey, sr_path = filePath, sr_checksum = checksum,
                      sr_size = length modelData\<rparr>,
                 fs', [FsWriteFile filePath modelData])))"

text \<open>\<open>ModelStorage.getModel\<close>\<close>

definition getModel :: "node_lib \<Rightarrow> model_storage \<Rightarrow> string \<Rightarrow> filesystem \<Rightarrow> error + buffer" where
  "getModel lib st storageKey fs = fs_readFile (path_join lib (storagePath st) storageKey) fs"

section \<open>Model manager: classes ModelRegistry and WrkModelManager (in wrk-model-manager/worker.js)\<close>

text \<open>
  The metadata a caller sends with a model: \<open>type\<close>, \<open>version\<close> and \<open>description\<close>,
  each absent or a string.
\<close>

record user_metadata =
  um_type :: "string option"
  um_version :: "string option"
  um_description :: "string option"

record model_metadata =
  md_modelId :: string
  md_type :: string
  md_version :: string
  md_description :: "string option"
  md_storageKey :: string
  md_size :: nat
  md_checksum :: string
  md_createdAt :: int
  md_updatedAt :: int

record model_manager =
  mgr_storage :: model_storage
  mgr_fs :: filesystem
  metadataStore :: "string \<rightharpoonup> model_metadata"
  versionIndex :: "string \<rightharpoonup> string list"
  typeIndex :: "string \<rightharpoonup> string list"
  mgr_modelCache :: "string \<rightharpoonup> model_metadata \<times> string"

text \<open>A string that may be absent is truthy when it is there and not empty.\<close>

definition str_truthy :: "string option \<Rightarrow> bool" where
  "str_truthy x = (case x of None \<Rightarrow> False | Some v \<Rightarrow> v \<noteq> [])"

text \<open>\<open>x || d\<close> for a string that may be absent.\<close>

definition str_or :: "string option \<Rightarrow> string \<Rightarrow> string" where
  "str_or x d = (case x of None \<Rightarrow> d | Some v \<Rightarrow> if v = [] then d else v)"

text \<open>
  \<open>ModelRegistry.storeMetadata\<close>, on the metadata \<open>WrkModelManager.storeModel\<close> has
  completed: \<open>createdAt\<close> is kept unless it is 0, \<open>updatedAt\<close> is stamped, and the
  version and type indices get the model.
\<close>

definition storeMetadata ::
  "string \<Rightarrow> model_metadata \<Rightarrow> int \<Rightarrow> model_manager \<Rightarrow> model_metadata \<times> model_manager" where
  "storeMetadata modelId md now mgr =
     (let fullMetadata =
            md\<lparr>md_modelId := modelId,
               md_createdAt := (if md_createdAt md \<noteq> 0 then md_createdAt md else now),
               md_updatedAt := now\<rparr>;
          version = (if md_version md \<noteq> [] then md_version md else ''1.0.0'')
      in (fullMetadata,
          mgr\<lparr>metadataStore := (metadataStore mgr)(modelId \<mapsto> fullMetadata),
              versionIndex := index_add version modelId (versionIndex mgr),
              typeIndex := index_add modelId (md_type md) (typeIndex mgr)\<rparr>))"

text \<open>\<open>ModelRegistry.getMetadata\<close> without a version.\<close>

definition getMetadata :: "string \<Rightarrow> model_manager \<Rightarrow> model_metadata option" where
  "getMetadata modelId mgr = metadataStore mgr modelId"

record store_result =
  st_success :: bool
  st_modelId :: string
  st_storageKey :: string
  st_checksum :: string
  st_size :: nat

text \<open>
  \<open>WrkModelManager.storeModel\<close>. \<open>modelData\<close> is \<open>None\<close> for a value that is not a
  Buffer; \<open>t_created\<close> and \<open>t_stored\<close> are the two readings of the clock. The
  metadata handed to the registry are the caller's with \<open>storageKey\<close>, \<open>size\<close>,
  \<open>checksum\<close> and \<open>createdAt\<close> set and \<open>version: metadata.version || '1.0.0'\<close>; the
  type is there, the check before has seen to it.
\<close>

definition mgr_storeModel ::
  "node_lib \<Rightarrow> write_outcome \<Rightarrow> string \<Rightarrow> buffer option \<Rightarrow> user_metadata option \<Rightarrow> int \<Rightarrow> int
     \<Rightarrow> model_manager \<Rightarrow> (error + store_result) \<times> model_manager" where
  "mgr_storeModel lib wo modelId modelData userMetadata t_created t_stored mgr =
     (case modelData of
        None \<Rightarrow> (Inl ERR_INVALID_MODEL_DATA, mgr)
      | Some data \<Rightarrow>
          (case userMetadata of
             None \<Rightarrow> (Inl ERR_INVALID_METADATA, mgr)
           | Some um \<Rightarrow>
               if \<not> str_truthy (um_type um) then (Inl ERR_INVALID_METADATA, mgr)
               else if modelId \<in> dom (metadataStore mgr) then (Inl ERR_MODEL_ALREADY_EXISTS, mgr)
               else
                 (case storeModel lib (mgr_storage mgr) wo modelId data (mgr_fs mgr) of
                    (Inl e, fs', calls) \<Rightarrow> (Inl e, mgr\<lparr>mgr_fs := fs'\<rparr>)
                  | (Inr storageResult, fs', calls) \<Rightarrow>
                      (let (registryResult, mgr1) =
                             storeMetadata modelId
                               \<lparr>md_modelId = modelId,
                                md_type = str_or (um_type um) [],
                                md_version = str_or (um_version um) ''1.0.0'',
                                md_description = um_description um,
                                md_storageKey = sr_key storageResult,
                                md_size = length data,
                                md_checksum = sr_checksum storageResult,
                                md_createdAt = t_created,
                                md_updatedAt = t_created\<rparr>
                               t_stored (mgr\<lparr>mgr_fs := fs'\<rparr>);
                           mgr2 = mgr1\<lparr>mgr_modelCache :=
                                    (mgr_modelCache mgr1)(modelId \<mapsto>
                                       (registryResult, sr_key storageResult))\<rparr>
                       in (Inr \<lparr>st_success = True, st_modelId = modelId,
                                st_storageKey = sr_key storageResult,
                                st_checksum = sr_checksum storageResult,
                                st_size = length data\<rparr>, mgr2))))) "

record validation_result =
  vr_success :: bool
  vr_modelId :: string
  isValid :: bool
  expectedChecksum :: string
  actualChecksum :: string

text \<open>
  \<open>WrkModelManager.validateModel\<close>: the stored bytes are read back, their checksum is
  computed again and compared with the one in the metadata.
\<close>

definition validateModel :: "node_lib \<Rightarrow> string \<Rightarrow> model_manager \<Rightarrow> error + validation_result" where
  "validateModel lib modelId mgr =
     (case getMetadata modelId mgr of
        None \<Rightarrow> Inl ERR_MODEL_NOT_FOUND
      | Some md \<Rightarrow>
          (case getModel lib (mgr_storage mgr) (md_storageKey md) (mgr_fs mgr) of
             Inl e \<Rightarrow> Inl e
           | Inr modelData \<Rightarrow>
               (let currentChecksum = calculateChecksum lib modelData
                in Inr \<lparr>vr_success = True, vr_modelId = modelId,
                        isValid = (currentChecksum = md_checksum md),
                        expectedChecksum = md_checksum md,
                        actualChecksum = currentChecksum\<rparr>)))"

section \<open>Sequences of calls on the inference worker\<close>

datatype worker_call =
    CallLoadModel string int
  | CallUnloadModel string
  | CallRunInference string jsval worker_env

fun worker_step :: "worker_call \<Rightarrow> worker_state \<Rightarrow> worker_state" where
  "worker_step (CallLoadModel modelId now) s = snd (loadModel modelId now s)"
| "worker_step (CallUnloadModel modelId) s = snd (unloadModel modelId s)"
| "worker_step (CallRunInference modelId inputData env) s =
     snd (runInference modelId inputData env s)"

definition worker_run :: "worker_call list \<Rightarrow> worker_state \<Rightarrow> worker_state" where
  "worker_run calls s = fold worker_step calls s"

section \<open>The inference worker between \<open>await\<close>s\<close>

text \<open>
  A call of an \<open>async\<close> method runs until its first \<open>await\<close>, and what follows the
  \<open>await\<close> runs later, in one stretch again, up to the next \<open>await\<close>; between two
  stretches of one call, stretches of other calls may run. The functions above let each
  call run from its start to its end. Here the calls are cut at their \<open>await\<close>s, and
  the worker has, besides its state, the list of the calls that are waiting:
  \<^item> \<open>loadModel\<close> waits once, for \<open>modelManager.loadModel\<close>;
  \<^item> \<open>runInference\<close> waits for \<open>modelManager.loadModel\<close> (on a cache miss only) and
    then for \<open>inferenceEngine.runInference\<close>;
  \<^item> \<open>modelManager.loadModel\<close> itself, on a miss, creates the model at once, waits,
    and stores it in \<open>modelStorage\<close> when it goes on;
  \<^item> \<open>unloadModel\<close> and \<open>checkCapacity\<close> have no \<open>await\<close>.
  The engine writes nothing of the worker's state, so its own \<open>await\<close>s are not cut.
\<close>

datatype task =
    LoadAwaitsStore string model
  | LoadAwaitsModel string model
  | RunAwaitsStore string jsval worker_env model
  | RunAwaitsModel string jsval worker_env model
  | RunAwaitsEngine string worker_env "error + inference_result"

text \<open>
  The first stretch of \<open>modelManager.loadModel\<close>: the model it will return, and whether
  it still has to store it.
\<close>

definition mm_begin :: "string \<Rightarrow> int \<Rightarrow> (string \<rightharpoonup> model) \<Rightarrow> model \<times> bool" where
  "mm_begin modelId now st =
     (case st modelId of
        Some m \<Rightarrow> (m, False)
      | None \<Rightarrow> (createMockModel modelId now, True))"

text \<open>The first stretch of each call, up to its first \<open>await\<close> or its end.\<close>

fun begin_call :: "worker_call \<Rightarrow> worker_state \<times> task list \<Rightarrow> worker_state \<times> task list" where
  "begin_call (CallLoadModel modelId now) (s, ts) =
     (if modelId \<in> dom (modelCache s) then (s, ts)
      else
        (let (m, store) = mm_begin modelId now (modelStorage s)
         in (s, ts @ [if store then LoadAwaitsStore modelId m else LoadAwaitsModel modelId m])))"
| "begin_call (CallUnloadModel modelId) (s, ts) = (snd (unloadModel modelId s), ts)"
| "begin_call (CallRunInference modelId inputData env) (s, ts) =
     (if currentLoad s \<ge> maxConcurrent s then (snd (wrk_catch ERR_CAPACITY_EXCEEDED s), ts)
      else if modelId \<notin> set (availableModels s)
      then (snd (wrk_catch ERR_MODEL_NOT_AVAILABLE s), ts)
      else
        (let s1 = s\<lparr>currentLoad := currentLoad s + 1\<rparr>
         in case modelCache s1 modelId of
              Some m \<Rightarrow>
                (s1, ts @ [RunAwaitsEngine modelId env
                             (engine_runInference m inputData (engine env))])
            | None \<Rightarrow>
                (let (m, store) = mm_begin modelId (t_load env) (modelStorage s1)
                 in (s1, ts @ [if store then RunAwaitsStore modelId inputData env m
                               else RunAwaitsModel modelId inputData env m]))))"

text \<open>
  The next stretch of a waiting call: the state it leaves, and the call as it waits
  again, or \<open>None\<close> when it has ended. A \<open>runInference\<close> that comes back from the
  engine decrements \<open>currentLoad\<close>, on its return as in its \<open>catch\<close>.
\<close>

fun resume_task :: "task \<Rightarrow> worker_state \<Rightarrow> worker_state \<times> task option" where
  "resume_task (LoadAwaitsStore modelId m) s =
     (s\<lparr>modelStorage := (modelStorage s)(modelId \<mapsto> m)\<rparr>, Some (LoadAwaitsModel modelId m))"
| "resume_task (LoadAwaitsModel modelId m) s =
     (s\<lparr>modelCache := (modelCache s)(modelId \<mapsto> m),
        availableModels := set_add modelId (availableModels s)\<rparr>, None)"
| "resume_task (RunAwaitsStore modelId inputData env m) s =
     (s\<lparr>modelStorage := (modelStorage s)(modelId \<mapsto> m)\<rparr>,
      Some (RunAwaitsModel modelId inputData env m))"
| "resume_task (RunAwaitsModel modelId inputData env m) s =
     (s\<lparr>modelCache := (modelCache s)(modelId \<mapsto> m)\<rparr>,
      Some (RunAwaitsEngine modelId env (engine_runInference m inputData (engine env))))"
| "resume_task (RunAwaitsEngine modelId env res) s =
     (s\<lparr>currentLoad := currentLoad s - 1\<rparr>, None)"

text \<open>
  What the event loop does next: it starts a call that has come in, or it lets the
  waiting call at some position go on.
\<close>

datatype loop_event = Begin worker_call | Resume nat

fun loop_step :: "loop_event \<Rightarrow> worker_state \<times> task list \<Rightarrow> worker_state \<times> task list" where
  "loop_step (Begin c) (s, ts) = begin_call c (s, ts)"
| "loop_step (Resume i) (s, ts) =
     (if i < length ts
      then (case resume_task (ts ! i) s of
              (s', None) \<Rightarrow> (s', take i ts @ drop (Suc i) ts)
            | (s', Some t) \<Rightarrow> (s', ts[i := t]))
      else (s, ts))"

definition loop_run ::
  "loop_event list \<Rightarrow> worker_state \<times> task list \<Rightarrow> worker_state \<times> task list" where
  "loop_run evs st = fold loop_step evs st"

text \<open>A \<open>runInference\<close> that waits for the model manager.\<close>

fun awaits_load :: "task \<Rightarrow> bool" where
  "awaits_load (RunAwaitsStore modelId inputData env m) = True"
| "awaits_load (RunAwaitsModel modelId inputData env m) = True"
| "awaits_load t = False"

text \<open>
  The standalone service between \<open>await\<close>s. Its \<open>loadModel\<close> is the worker's; its
  \<open>runInference\<close> makes the two checks before the \<open>try\<close>, so a rejected call ends
  with the state as it was, and its \<open>finally\<close> decrements where the worker's return
  and \<open>catch\<close> do. It has no \<open>unloadModel\<close>.
\<close>

datatype svc_call = SvcLoadModel string int | SvcRunInference string jsval worker_env

fun svc_begin_call :: "svc_call \<Rightarrow> worker_state \<times> task list \<Rightarrow> worker_state \<times> task list" where
  "svc_begin_call (SvcLoadModel modelId now) (s, ts) =
     begin_call (CallLoadModel modelId now) (s, ts)"
| "svc_begin_call (SvcRunInference modelId inputData env) (s, ts) =
     (if currentLoad s \<ge> maxConcurrent s then (s, ts)
      else if modelId \<notin> set (availableModels s) then (s, ts)
      else
        (let s1 = s\<lparr>currentLoad := currentLoad s + 1\<rparr>
         in case modelCache s1 modelId of
              Some m \<Rightarrow>
                (s1, ts @ [RunAwaitsEngine modelId env
                             (engine_runInference m inputData (engine env))])
            | None \<Rightarrow>
                (let (m, store) = mm_begin modelId (t_load env) (modelStorage s1)
                 in (s1, ts @ [if store then RunAwaitsStore modelId inputData env m
                               else RunAwaitsModel modelId inputData env m]))))"

datatype svc_event = SvcBegin svc_call | SvcResume nat

fun svc_loop_step :: "svc_event \<Rightarrow> worker_state \<times> task list \<Rightarrow> worker_state \<times> task list" where
  "svc_loop_step (SvcBegin c) st = svc_begin_call c st"
| "svc_loop_step (SvcResume i) st = loop_step (Resume i) st"

definition svc_loop_run ::
  "svc_event list \<Rightarrow> worker_state \<times> task list \<Rightarrow> worker_state \<times> task list" where
  "svc_loop_run evs st = fold svc_loop_step evs st"

text \<open>The calls of \<open>runInference\<close> that are waiting.\<close>

fun is_run :: "task \<Rightarrow> bool" where
  "is_run (LoadAwaitsStore modelId m) = False"
| "is_run (LoadAwaitsModel modelId m) = False"
| "is_run t = True"

definition in_flight :: "task list \<Rightarrow> int" where
  "in_flight ts = int (length (filter is_run ts))"

section \<open>Invariants and example inputs\<close>

text \<open>The set of available models is the key set of the model cache.\<close>

definition cache_inv :: "worker_state \<Rightarrow> bool" where
  "cache_inv s = (set (availableModels s) = dom (modelCache s))"

text \<open>
  Between \<open>await\<close>s: the same, and no \<open>runInference\<close> is waiting for the model
  manager.
\<close>

definition loop_inv :: "worker_state \<times> task list \<Rightarrow> bool" where
  "loop_inv st = (cache_inv (fst st) \<and> (\<forall>t\<in>set (snd st). \<not> awaits_load t))"

text \<open>
  The standalone service between \<open>await\<close>s: \<open>currentLoad\<close> counts the calls of
  \<open>runInference\<close> that are waiting, and does not exceed the limit (a limit configured
  below 0 admits nothing).
\<close>

definition svc_inv :: "worker_state \<times> task list \<Rightarrow> bool" where
  "svc_inv st =
     (currentLoad (fst st) = in_flight (snd st)
      \<and> currentLoad (fst st) \<le> max 0 (maxConcurrent (fst st)))"

text \<open>The ids in the Set an index has under a key.\<close>

definition index_members :: "(string \<rightharpoonup> string list) \<Rightarrow> string \<Rightarrow> string set" where
  "index_members idx k = (case idx k of None \<Rightarrow> {} | Some ids \<Rightarrow> set ids)"

text \<open>The keys under which the registry indexes a worker with given capabilities.\<close>

fun cap_keys :: "capabilities \<Rightarrow> string set" where
  "cap_keys (CapsArray caps) = set caps"
| "cap_keys c = {}"

fun model_keys :: "capabilities \<Rightarrow> string set" where
  "model_keys (CapsObject (ModelsList ms)) = set ms"
| "model_keys c = {}"

text \<open>
  Every index entry names a worker of the main map, under a key of the capabilities
  stored for it.
\<close>

definition indexed_by_caps :: "registry \<Rightarrow> bool" where
  "indexed_by_caps r =
     (\<forall>k wid. (wid \<in> index_members (capabilityIndex r) k \<longrightarrow>
                  (\<exists>w. workers r wid = Some w \<and> k \<in> cap_keys (wi_capabilities w)))
            \<and> (wid \<in> index_members (modelIndex r) k \<longrightarrow>
                  (\<exists>w. workers r wid = Some w \<and> k \<in> model_keys (wi_capabilities w))))"

text \<open>A sequence of calls in which no id is registered while it is a key of the main map.\<close>

fun fresh_ids :: "registry_call list \<Rightarrow> registry \<Rightarrow> bool" where
  "fresh_ids [] r = True"
| "fresh_ids (Register workerInfo # calls) r =
     (workers r (wi_id workerInfo) = None
      \<and> fresh_ids calls (registry_step (Register workerInfo) r))"
| "fresh_ids (Unregister workerId # calls) r =
     fresh_ids calls (registry_step (Unregister workerId) r)"

text \<open>No window of the limiter begins after \<open>now\<close>.\<close>

definition starts_before :: "int \<Rightarrow> rate_limiter \<Rightarrow> bool" where
  "starts_before now rl = (\<forall>c d. rl c = Some d \<longrightarrow> windowStart d \<le> now)"

text \<open>
  The entry \<open>d\<close> of client \<open>c\<close> is still the stored one, or the cleanup has deleted it
  after its window ran out.
\<close>

definition held :: "rate_limit_conf \<Rightarrow> string \<Rightarrow> client_data \<Rightarrow> int \<Rightarrow> rate_limiter \<Rightarrow> bool" where
  "held conf c d now rl =
     (rl c = Some d \<or> (rl c = None \<and> now - windowStart d > windowMs conf))"

text \<open>A worker \<open>w1\<close> that announces the models \<open>ms\<close>.\<close>

definition w1 :: "string list \<Rightarrow> worker_info" where
  "w1 ms =
     \<lparr>wi_id = ''w1'', wi_address = ''http://localhost:8001'',
      wi_capabilities = CapsObject (ModelsList ms),
      wi_registeredAt = 0, wi_lastSeen = 0, wi_status = ''active''\<rparr>"

text \<open>A probe that fails.\<close>

definition failing_probe :: probe where
  "failing_probe = \<lparr>p_start = 0, p_checked = 0, p_end = 0, p_failure = Some ''down''\<rparr>"

text \<open>A probe that passes.\<close>

definition passing_probe :: probe where
  "passing_probe = \<lparr>p_start = 0, p_checked = 0, p_end = 0, p_failure = None\<rparr>"

text \<open>
  An orchestrator in which worker \<open>W1\<close> was registered for model \<open>m1\<close> and its probe
  has then failed three times in a row.
\<close>

definition after_three_failures :: orchestrator where
  "after_three_failures =
     orch_healthCheck ''W1'' failing_probe
       (orch_healthCheck ''W1'' failing_probe
         (orch_healthCheck ''W1'' failing_probe
           (snd (orch_registerWorker ''W1'' ''http://localhost:8001''
                   (CapsObject (ModelsList [''m1''])) 0 new_orchestrator))))"







text \<open>A limiter of two requests per second, and a history of one client.\<close>

definition two_per_second :: rate_limit_conf where
  "two_per_second = \<lparr>rl_enabled = True, rl_windowMs = Some 1000, rl_maxRequests = Some 2\<rparr>"

definition first_two :: "limiter_event list" where
  "first_two = [Request ''10.0.0.1'' 0, Request ''10.0.0.1'' 100]"

definition then_denied :: "limiter_event list" where
  "then_denied = [Request ''10.0.0.1'' 300, Cleanup 400, Request ''10.0.0.2'' 450]"

text \<open>
  Stand-ins for the two library functions, for evaluating the storage on an example;
  no theorem depends on what they compute.
\<close>

definition toy_lib :: node_lib where
  "toy_lib = \<lparr>sha256hex = (\<lambda>s. ''h'' @ s), path_join = (\<lambda>a b. a @ ''/'' @ b)\<rparr>"

definition small_storage :: model_storage where
  "small_storage = \<lparr>storagePath = ''models'', maxModelSize = 4\<rparr>"

definition empty_manager :: model_manager where
  "empty_manager =
     \<lparr>mgr_storage = small_storage, mgr_fs = Map.empty, metadataStore = Map.empty,
      versionIndex = Map.empty, typeIndex = Map.empty, mgr_modelCache = Map.empty\<rparr>"

definition onnx_metadata :: user_metadata where
  "onnx_metadata = \<lparr>um_type = Some ''onnx'', um_version = None, um_description = None\<rparr>"

text \<open>The clock readings and the outcome of one inference that succeeds.\<close>

definition sample_env :: worker_env where
  "sample_env =
     \<lparr>engine = \<lparr>t_start = 10, t_preprocessed = 11, t_postprocessed = 111, t_end = 112,
                 inference_id = ''inf_10_abc'',
                 outcome = PredictReturns (JObj [(''predictions'', JArr [JNum 1]),
                                                 (''confidence'', JNum (3/4))])\<rparr>,
      t_load = 9, t_envelope = 113\<rparr>"

section \<open>Inference worker: capacity gate and model availability\<close>

lemma engine_errors:
  "engine_runInference m i e = Inl err \<Longrightarrow>
     err \<noteq> ERR_CAPACITY_EXCEEDED \<and> err \<noteq> ERR_MODEL_NOT_AVAILABLE"
  by (auto simp: engine_runInference_def executeInference_def postprocessResult_def
      split: if_splits predict_outcome.splits sum.splits)

text \<open>
  The standalone service keeps the counter: whatever a call of its \<open>runInference\<close>
  ends with, \<open>currentLoad\<close> is afterwards what it was before.
\<close>

lemma svc_runInference_restores_load:
  "currentLoad (snd (svc_runInference modelId inputData env s)) = currentLoad s"
  by (auto simp: svc_runInference_def get_or_load_def mm_loadModel_def Let_def
      split: prod.splits sum.splits option.splits)

lemma svc_runInference_rejected_unchanged:
  "fst (svc_runInference modelId inputData env s) = Inl ERR_MODEL_NOT_AVAILABLE
     \<Longrightarrow> snd (svc_runInference modelId inputData env s) = s"
  by (auto simp: svc_runInference_def Let_def split: prod.splits sum.splits if_splits
      dest: engine_errors)

lemma in_flight_append: "in_flight (ts @ [t]) = in_flight ts + (if is_run t then 1 else 0)"
  by (simp add: in_flight_def)

lemma in_flight_remove:
  "i < length ts \<Longrightarrow>
     in_flight (take i ts @ drop (Suc i) ts) = in_flight ts - (if is_run (ts ! i) then 1 else 0)"
proof -
  assume i: "i < length ts"
  have "in_flight ts = in_flight (take i ts @ ts ! i # drop (Suc i) ts)"
    using id_take_nth_drop[OF i] by simp
  then show ?thesis by (simp add: in_flight_def)
qed

lemma in_flight_update:
  "i < length ts \<Longrightarrow> is_run t = is_run (ts ! i) \<Longrightarrow> in_flight (ts[i := t]) = in_flight ts"
proof -
  assume i: "i < length ts" and eq: "is_run t = is_run (ts ! i)"
  have a: "in_flight ts = in_flight (take i ts @ ts ! i # drop (Suc i) ts)"
    using id_take_nth_drop[OF i] by simp
  have b: "ts[i := t] = take i ts @ t # drop (Suc i) ts"
    using i by (rule upd_conv_take_nth_drop)
  show ?thesis unfolding b using a eq by (simp add: in_flight_def)
qed

lemma in_flight_nonneg: "0 \<le> in_flight ts"
  by (simp add: in_flight_def)

lemma svc_inv_begin: "svc_inv (s, ts) \<Longrightarrow> svc_inv (svc_begin_call c (s, ts))"
  by (cases c)
     (auto simp: svc_inv_def in_flight_append mm_begin_def Let_def split: option.splits)

lemma svc_inv_resume:
  assumes "svc_inv (s, ts)" shows "svc_inv (loop_step (Resume i) (s, ts))"
proof (cases "i < length ts")
  case False
  with assms show ?thesis by simp
next
  case True
  show ?thesis
  proof (cases "ts ! i")
    case (LoadAwaitsStore m mdl)
    with True assms show ?thesis by (simp add: svc_inv_def in_flight_update)
  next
    case (LoadAwaitsModel m mdl)
    with True assms show ?thesis by (simp add: svc_inv_def in_flight_remove)
  next
    case (RunAwaitsStore m inp env mdl)
    with True assms show ?thesis by (simp add: svc_inv_def in_flight_update)
  next
    case (RunAwaitsModel m inp env mdl)
    with True assms show ?thesis by (simp add: svc_inv_def in_flight_update)
  next
    case (RunAwaitsEngine m env res)
    with True assms show ?thesis by (simp add: svc_inv_def in_flight_remove)
  qed
qed

lemma svc_inv_step: "svc_inv st \<Longrightarrow> svc_inv (svc_loop_step ev st)"
  by (cases st; cases ev)
     (simp_all add: svc_inv_begin svc_inv_resume del: loop_step.simps svc_begin_call.simps)

lemma svc_inv_run: "svc_inv st \<Longrightarrow> svc_inv (fold svc_loop_step evs st)"
  by (induction evs arbitrary: st) (simp_all add: svc_inv_step)

text \<open>
  The standalone service is safe however its calls interleave: at every point
  \<open>currentLoad\<close> is the number of \<open>runInference\<close> calls that are waiting, it is not
  negative, and it does not exceed the limit.
\<close>

lemma svc_capacity_safe:
  "0 \<le> currentLoad (fst (svc_loop_run evs (new_worker mc, [])))
   \<and> currentLoad (fst (svc_loop_run evs (new_worker mc, [])))
       \<le> max 0 (maxConcurrent (fst (svc_loop_run evs (new_worker mc, []))))
   \<and> currentLoad (fst (svc_loop_run evs (new_worker mc, [])))
       = in_flight (snd (svc_loop_run evs (new_worker mc, [])))"
proof -
  have "svc_inv (new_worker mc, [])"
    by (auto simp: svc_inv_def new_worker_def in_flight_def split: option.splits)
  then have "svc_inv (svc_loop_run evs (new_worker mc, []))"
    unfolding svc_loop_run_def by (rule svc_inv_run)
  then show ?thesis
    using in_flight_nonneg[of "snd (svc_loop_run evs (new_worker mc, []))"]
    by (auto simp: svc_inv_def)
qed

text \<open>
  Claim C1 (\<open>0 \<le> currentLoad \<le> maxConcurrent\<close> at every point of any sequence of
  \<open>runInference\<close> calls, failing calls included). The worker of ai.inference.wrk.js
  breaks it: on a worker just constructed, with no model loaded, one call for model
  \<open>m1\<close> fails the availability check with \<open>ERR_MODEL_NOT_AVAILABLE\<close>, and its
  \<open>catch\<close> decrements the counter that was never incremented, leaving
  \<open>currentLoad = -1\<close>.
\<close>

theorem runInference_rejected_call_leaves_negative_load:
  "runInference ''m1'' inputData env (new_worker None) =
     (Inl ERR_MODEL_NOT_AVAILABLE, (new_worker None)\<lparr>currentLoad := -1\<rparr>)
   \<and> currentLoad (snd (runInference ''m1'' inputData env (new_worker None))) < 0"
  by (simp add: runInference_def new_worker_def wrk_catch_def)

text \<open>
  The same decrement lets a rejected call make room that is not there. With a limit of 1
  and model \<open>m1\<close> loaded, start three calls without letting any go on: the first is
  admitted, the second is rejected for capacity and sets the counter back to 0, so the
  third is admitted: two calls are waiting for the engine while \<open>maxConcurrent\<close> is 1.
\<close>

lemma rejected_call_admits_over_capacity:
  "in_flight (snd (loop_run
      [Begin (CallLoadModel ''m1'' 0), Resume 0, Resume 0,
       Begin (CallRunInference ''m1'' (JNum 1) env),
       Begin (CallRunInference ''m1'' (JNum 1) env),
       Begin (CallRunInference ''m1'' (JNum 1) env)] (new_worker (Some 1), []))) = 2
   \<and> maxConcurrent (fst (loop_run
      [Begin (CallLoadModel ''m1'' 0), Resume 0, Resume 0,
       Begin (CallRunInference ''m1'' (JNum 1) env),
       Begin (CallRunInference ''m1'' (JNum 1) env),
       Begin (CallRunInference ''m1'' (JNum 1) env)] (new_worker (Some 1), []))) = 1"
  by (simp add: loop_run_def new_worker_def mm_begin_def set_add_def wrk_catch_def
      in_flight_def Let_def)

text \<open>
  Claim C5. A call of the worker's \<open>runInference\<close> throws \<open>ERR_CAPACITY_EXCEEDED\<close>
  exactly when \<open>currentLoad \<ge> maxConcurrent\<close> at entry, and
  \<open>ERR_MODEL_NOT_AVAILABLE\<close> exactly when the capacity check passes and the model is
  not in \<open>availableModels\<close>, so the capacity check comes first. A call rejected by
  either check ends at once with that error, in its first stretch: nothing of it stays
  behind in the worker but the changed counter, and the list of waiting calls is as it
  was, so no request is queued.
\<close>

theorem runInference_fail_fast_errors:
  "((fst (runInference modelId inputData env s) = Inl ERR_CAPACITY_EXCEEDED)
      = (currentLoad s \<ge> maxConcurrent s))
   \<and> ((fst (runInference modelId inputData env s) = Inl ERR_MODEL_NOT_AVAILABLE)
      = (currentLoad s < maxConcurrent s \<and> modelId \<notin> set (availableModels s)))
   \<and> (currentLoad s \<ge> maxConcurrent s \<or> modelId \<notin> set (availableModels s)
        \<longrightarrow> snd (runInference modelId inputData env s) = s\<lparr>currentLoad := currentLoad s - 1\<rparr>
          \<and> snd (begin_call (CallRunInference modelId inputData env) (s, ts)) = ts)"
  by (auto simp: runInference_def wrk_catch_def Let_def split: prod.splits sum.splits
      dest: engine_errors)

theorem runInference_fail_fast_errors_witness:
  "fst (runInference ''m1'' (JNum 1) sample_env ((new_worker (Some 1))\<lparr>currentLoad := 1\<rparr>))
     = Inl ERR_CAPACITY_EXCEEDED
   \<and> fst (runInference ''m1'' (JNum 1) sample_env (new_worker (Some 1)))
     = Inl ERR_MODEL_NOT_AVAILABLE
   \<and> snd (runInference ''m1'' (JNum 1) sample_env (new_worker (Some 1)))
     = (new_worker (Some 1))\<lparr>currentLoad := -1\<rparr>
   \<and> snd (begin_call (CallRunInference ''m1'' (JNum 1) sample_env) (new_worker (Some 1), []))
     = []"
  using runInference_fail_fast_errors
          [where modelId = "''m1''" and inputData = "JNum 1" and env = sample_env
             and s = "(new_worker (Some 1))\<lparr>currentLoad := 1\<rparr>" and ts = "[]"]
        runInference_fail_fast_errors
          [where modelId = "''m1''" and inputData = "JNum 1" and env = sample_env
             and s = "new_worker (Some 1)" and ts = "[]"]
  by (simp add: new_worker_def)

text \<open>The standalone service rejects on the same two conditions, and changes nothing.\<close>

lemma svc_runInference_fail_fast_errors:
  "((fst (svc_runInference modelId inputData env s) = Inl ERR_CAPACITY_EXCEEDED)
      = (currentLoad s \<ge> maxConcurrent s))
   \<and> ((fst (svc_runInference modelId inputData env s) = Inl ERR_MODEL_NOT_AVAILABLE)
      = (currentLoad s < maxConcurrent s \<and> modelId \<notin> set (availableModels s)))
   \<and> (currentLoad s \<ge> maxConcurrent s \<or> modelId \<notin> set (availableModels s)
        \<longrightarrow> snd (svc_runInference modelId inputData env s) = s
          \<and> snd (svc_begin_call (SvcRunInference modelId inputData env) (s, ts)) = ts)"
  by (auto simp: svc_runInference_def Let_def split: prod.splits sum.splits
      dest: engine_errors)

section \<open>Inference engine: post-processing\<close>

text \<open>
  Claim C9 (the post-processed confidence is \<open>raw.confidence\<close> whenever that field is
  present, the value 0 included). The engine reads the field with \<open>||\<close>: for the raw
  result \<open>{predictions: [1], confidence: 0}\<close> the confidence it reports is 0.5, not 0.
\<close>

theorem postprocessResult_zero_confidence_becomes_half:
  "postprocessResult (JObj [(''predictions'', JArr [JNum 1]), (''confidence'', JNum 0)]) m now
     = Inr \<lparr>predictions = JArr [JNum 1], confidence = JNum (1/2),
            metadata = \<lparr>modelVersion = model_version m, processedAt = now\<rparr>\<rparr>"
  by (simp add: postprocessResult_def js_or_def)

text \<open>What the engine does report: a truthy field is passed on, anything else replaced.\<close>

lemma postprocessResult_fields:
  assumes "raw \<noteq> JNull" "raw \<noteq> JUndefined"
  shows "\<exists>r. postprocessResult raw m now = Inr r
     \<and> predictions r = (if truthy (get_prop raw ''predictions'')
                         then get_prop raw ''predictions'' else raw)
     \<and> confidence r = (if truthy (get_prop raw ''confidence'')
                        then get_prop raw ''confidence'' else JNum (1/2))
     \<and> metadata r = \<lparr>modelVersion = model_version m, processedAt = now\<rparr>"
  using assms by (simp add: postprocessResult_def js_or_def)

section \<open>Inference worker: available models and the model cache\<close>

lemma cache_inv_loadModel: "cache_inv s \<Longrightarrow> cache_inv (snd (loadModel modelId now s))"
  by (auto simp: cache_inv_def loadModel_def set_add_def mm_loadModel_def Let_def
      split: prod.splits option.splits)

lemma cache_inv_unloadModel: "cache_inv s \<Longrightarrow> cache_inv (snd (unloadModel modelId s))"
  by (auto simp: cache_inv_def unloadModel_def set_delete_def split: if_splits)

lemma cache_inv_runInference:
  "cache_inv s \<Longrightarrow> cache_inv (snd (runInference modelId inputData env s))"
  by (auto simp: cache_inv_def runInference_def wrk_catch_def get_or_load_def Let_def
      split: prod.splits option.splits sum.splits)

lemma cache_inv_svc_runInference:
  "cache_inv s \<Longrightarrow> cache_inv (snd (svc_runInference modelId inputData env s))"
  by (auto simp: cache_inv_def svc_runInference_def get_or_load_def Let_def
      split: prod.splits option.splits sum.splits)

lemma cache_inv_step: "cache_inv s \<Longrightarrow> cache_inv (worker_step c s)"
  by (cases c) (simp_all add: cache_inv_loadModel cache_inv_unloadModel cache_inv_runInference)

lemma cache_inv_fold: "cache_inv s \<Longrightarrow> cache_inv (fold worker_step calls s)"
  by (induction calls arbitrary: s) (simp_all add: cache_inv_step)

lemma cache_inv_new_worker: "cache_inv (new_worker mc)"
  by (simp add: cache_inv_def new_worker_def)

text \<open>
  A call that is let run to its end before anything else starts does what the function
  of the whole call does.
\<close>

lemma call_in_one_go:
  "loop_run [Begin c, Resume 0, Resume 0, Resume 0] (s, []) = (worker_step c s, [])"
proof (cases c)
  case (CallLoadModel modelId now)
  then show ?thesis
    by (auto simp: loop_run_def loadModel_def mm_begin_def mm_loadModel_def Let_def
        split: option.splits)
next
  case (CallUnloadModel modelId)
  then show ?thesis by (simp add: loop_run_def)
next
  case (CallRunInference modelId inputData env)
  then show ?thesis
    by (auto simp: loop_run_def runInference_def wrk_catch_def get_or_load_def mm_begin_def
        mm_loadModel_def Let_def split: option.splits sum.splits)
qed

lemma loop_inv_begin: "loop_inv (s, ts) \<Longrightarrow> loop_inv (begin_call c (s, ts))"
proof (cases c)
  case (CallLoadModel modelId now)
  assume "loop_inv (s, ts)"
  with CallLoadModel show ?thesis
    by (auto simp: loop_inv_def mm_begin_def Let_def split: option.splits)
next
  case (CallUnloadModel modelId)
  assume "loop_inv (s, ts)"
  with CallUnloadModel show ?thesis
    by (auto simp: loop_inv_def cache_inv_unloadModel)
next
  case (CallRunInference modelId inputData env)
  assume "loop_inv (s, ts)"
  with CallRunInference show ?thesis
    by (auto simp: loop_inv_def cache_inv_def wrk_catch_def Let_def split: option.splits)
qed

lemma loop_inv_resume:
  assumes "loop_inv (s, ts)" shows "loop_inv (loop_step (Resume i) (s, ts))"
proof (cases "i < length ts")
  case False
  with assms show ?thesis by simp
next
  case True
  then have mem: "ts ! i \<in> set ts" by simp
  with assms have na: "\<not> awaits_load (ts ! i)" by (simp add: loop_inv_def)
  have rest: "\<forall>t\<in>set (take i ts @ drop (Suc i) ts). \<not> awaits_load t"
    using assms by (auto simp: loop_inv_def dest: in_set_takeD in_set_dropD)
  have upd: "\<not> awaits_load t \<Longrightarrow> \<forall>u\<in>set (ts[i := t]). \<not> awaits_load u" for t
    using assms by (auto simp: loop_inv_def dest!: set_update_subset_insert[THEN subsetD])
  show ?thesis
  proof (cases "ts ! i")
    case (LoadAwaitsStore m mdl)
    with True assms upd[of "LoadAwaitsModel m mdl"] show ?thesis
      by (simp add: loop_inv_def cache_inv_def)
  next
    case (LoadAwaitsModel m mdl)
    with True assms rest show ?thesis
      by (auto simp: loop_inv_def cache_inv_def set_add_def)
  next
    case (RunAwaitsStore m inp env mdl)
    with na show ?thesis by simp
  next
    case (RunAwaitsModel m inp env mdl)
    with na show ?thesis by simp
  next
    case (RunAwaitsEngine m env res)
    with True assms rest show ?thesis
      by (simp add: loop_inv_def cache_inv_def)
  qed
qed

lemma loop_inv_step: "loop_inv st \<Longrightarrow> loop_inv (loop_step ev st)"
  by (cases st; cases ev) (simp_all add: loop_inv_begin loop_inv_resume del: loop_step.simps(2))

lemma loop_inv_run: "loop_inv st \<Longrightarrow> loop_inv (fold loop_step evs st)"
  by (induction evs arbitrary: st) (simp_all add: loop_inv_step)

text \<open>
  Claim C10. On a worker just constructed, however \<open>loadModel\<close>, \<open>unloadModel\<close> and
  \<open>runInference\<close> calls come in and interleave at their \<open>await\<close>s, between any two
  stretches the set of available models is the key set of the model cache, and so the
  \<open>modelAvailable\<close> and \<open>modelLoaded\<close> flags of \<open>checkCapacity\<close> are equal for every
  model id. The same holds after any sequence of whole calls.
\<close>

theorem available_models_are_cache_keys:
  "set (availableModels (fst (loop_run evs (new_worker mc, []))))
     = dom (modelCache (fst (loop_run evs (new_worker mc, []))))
   \<and> cr_modelAvailable (checkCapacity modelId (fst (loop_run evs (new_worker mc, []))))
     = cr_modelLoaded (checkCapacity modelId (fst (loop_run evs (new_worker mc, []))))
   \<and> set (availableModels (worker_run calls (new_worker mc)))
     = dom (modelCache (worker_run calls (new_worker mc)))
   \<and> cr_modelAvailable (checkCapacity modelId (worker_run calls (new_worker mc)))
     = cr_modelLoaded (checkCapacity modelId (worker_run calls (new_worker mc)))"
proof -
  have "loop_inv (new_worker mc, [])"
    by (simp add: loop_inv_def cache_inv_new_worker)
  then have "loop_inv (loop_run evs (new_worker mc, []))"
    unfolding loop_run_def by (rule loop_inv_run)
  then have a: "cache_inv (fst (loop_run evs (new_worker mc, [])))"
    by (simp add: loop_inv_def)
  have b: "cache_inv (worker_run calls (new_worker mc))"
    unfolding worker_run_def by (rule cache_inv_fold) (rule cache_inv_new_worker)
  have flags: "cache_inv s \<Longrightarrow>
      cr_modelAvailable (checkCapacity modelId s) = cr_modelLoaded (checkCapacity modelId s)"
    for s
    by (auto simp: cache_inv_def checkCapacity_def split: option.splits)
  from a b flags[OF a] flags[OF b] show ?thesis
    by (simp add: cache_inv_def)
qed

text \<open>
  Two loads that overlap, an unload, and an inference for the model that stays: the
  available models and the cache keys are both \<open>{m2}\<close>.
\<close>

theorem available_models_are_cache_keys_witness:
  "set (availableModels (fst (loop_run
        [Begin (CallLoadModel ''m1'' 5), Begin (CallLoadModel ''m2'' 6), Resume 1, Resume 0,
         Resume 0, Resume 0, Begin (CallUnloadModel ''m1''),
         Begin (CallRunInference ''m2'' (JNum 1) sample_env)]
        (new_worker None, [])))) = {''m2''}
   \<and> dom (modelCache (fst (loop_run
        [Begin (CallLoadModel ''m1'' 5), Begin (CallLoadModel ''m2'' 6), Resume 1, Resume 0,
         Resume 0, Resume 0, Begin (CallUnloadModel ''m1''),
         Begin (CallRunInference ''m2'' (JNum 1) sample_env)]
        (new_worker None, [])))) = {''m2''}
   \<and> cr_modelLoaded (checkCapacity (Some ''m2'')
        (worker_run [CallLoadModel ''m1'' 5, CallLoadModel ''m2'' 6, CallUnloadModel ''m1'']
           (new_worker None))) = Some True"
  using available_models_are_cache_keys
          [where evs = "[Begin (CallLoadModel ''m1'' 5), Begin (CallLoadModel ''m2'' 6),
                         Resume 1, Resume 0, Resume 0, Resume 0,
                         Begin (CallUnloadModel ''m1''),
                         Begin (CallRunInference ''m2'' (JNum 1) sample_env)]"
             and calls = "[CallLoadModel ''m1'' 5, CallLoadModel ''m2'' 6,
                           CallUnloadModel ''m1'']"
             and mc = None and modelId = "Some ''m2''"]
  by (simp add: loop_run_def worker_run_def loadModel_def unloadModel_def new_worker_def
      mm_loadModel_def mm_begin_def set_add_def set_delete_def checkCapacity_def Let_def)

section \<open>Orchestrator: health probes and selection\<close>

text \<open>
  A health check writes the monitor and nothing else, so the workers the registry
  offers for a model are the same before and after any number of probes.
\<close>

lemma orch_healthCheck_registry:
  "serviceRegistry (orch_healthCheck workerId p orch) = serviceRegistry orch"
  by (simp add: orch_healthCheck_def)

lemma health_checks_keep_candidates:
  "getWorkersForModel modelId
     (serviceRegistry (fold (\<lambda>p. orch_healthCheck workerId p) probes orch))
   = getWorkersForModel modelId (serviceRegistry orch)"
  by (induction probes arbitrary: orch) (simp_all add: orch_healthCheck_registry)

text \<open>
  Claim C2 (after three consecutive failed probes the worker is left out of
  \<open>getWorkersForModel\<close>, and one successful probe readmits it). The code does not
  exclude it: with worker \<open>W1\<close> registered for model \<open>m1\<close> and three failed probes in
  a row, the monitor's own record of \<open>W1\<close> has status \<open>unhealthy\<close> and three
  consecutive failures, while \<open>getWorkersForModel\<close> still returns \<open>W1\<close> and the
  routing has it as its candidate.
\<close>

theorem three_failed_probes_do_not_exclude_worker:
  "map wi_id (getWorkersForModel ''m1'' (serviceRegistry after_three_failures)) = [''W1'']
   \<and> map_sum id (map wi_id) (orch_candidates ''m1'' after_three_failures) = Inr [''W1'']
   \<and> map_option mw_status (monitoredWorkers (healthMonitor after_three_failures) ''W1'')
       = Some ''unhealthy''
   \<and> map_option mw_consecutiveFailures
        (monitoredWorkers (healthMonitor after_three_failures) ''W1'') = Some 3"
  by (simp add: after_three_failures_def orch_healthCheck_def orch_registerWorker_def
      registerWorker_def new_orchestrator_def new_registry_def new_health_monitor_def
      new_load_balancer_def performHealthCheck_def startMonitoring_def failing_probe_def
      getWorkersForModel_def orch_candidates_def active_workers_def index_add_def set_add_def
      addWorker_def List.map_filter_def Let_def)

text \<open>
  Nor does a probe that passes afterwards write the status: the monitor's record stays
  \<open>unhealthy\<close> with no consecutive failure.
\<close>

lemma passing_probe_does_not_restore_status:
  "map_option mw_status
     (monitoredWorkers (healthMonitor (orch_healthCheck ''W1'' passing_probe
        after_three_failures)) ''W1'') = Some ''unhealthy''
   \<and> map_option mw_consecutiveFailures
     (monitoredWorkers (healthMonitor (orch_healthCheck ''W1'' passing_probe
        after_three_failures)) ''W1'') = Some 0"
  by (simp add: after_three_failures_def orch_healthCheck_def orch_registerWorker_def
      registerWorker_def new_orchestrator_def new_registry_def new_health_monitor_def
      new_load_balancer_def performHealthCheck_def startMonitoring_def failing_probe_def
      passing_probe_def Let_def)

section \<open>Orchestrator: index consistency of the registry\<close>

lemma members_index_add:
  "index_members (index_add wid k idx) k' =
     (if k' = k then insert wid (index_members idx k) else index_members idx k')"
  by (auto simp: index_members_def index_add_def set_add_def split: option.splits)

lemma members_fold_add:
  "index_members (fold (index_add wid) ks idx) k' =
     (if k' \<in> set ks then insert wid (index_members idx k') else index_members idx k')"
  by (induction ks arbitrary: idx) (auto simp: members_index_add)

lemma members_index_remove:
  "index_members (index_remove wid k idx) k' =
     (if k' = k then index_members idx k - {wid} else index_members idx k')"
  by (auto simp: index_members_def index_remove_def set_delete_def Let_def filter_empty_conv
      split: option.splits)

lemma members_fold_remove:
  "index_members (fold (index_remove wid) ks idx) k' =
     (if k' \<in> set ks then index_members idx k' - {wid} else index_members idx k')"
  by (induction ks arbitrary: idx) (auto simp: members_index_remove)

lemma register_workers:
  "workers (snd (registerWorker wi r)) = (workers r)(wi_id wi \<mapsto> wi)"
  by (auto simp: registerWorker_def Let_def split: capabilities.splits models_prop.splits)

lemma register_capabilityIndex:
  "index_members (capabilityIndex (snd (registerWorker wi r))) k =
     (if k \<in> cap_keys (wi_capabilities wi)
      then insert (wi_id wi) (index_members (capabilityIndex r) k)
      else index_members (capabilityIndex r) k)"
  by (auto simp: registerWorker_def Let_def members_fold_add
      split: capabilities.splits models_prop.splits)

lemma register_modelIndex:
  "index_members (modelIndex (snd (registerWorker wi r))) k =
     (if k \<in> model_keys (wi_capabilities wi)
      then insert (wi_id wi) (index_members (modelIndex r) k)
      else index_members (modelIndex r) k)"
  by (auto simp: registerWorker_def Let_def members_fold_add
      split: capabilities.splits models_prop.splits)

lemma indexed_register:
  assumes "indexed_by_caps r" "workers r (wi_id wi) = None"
  shows "indexed_by_caps (snd (registerWorker wi r))"
proof -
  have none: "wi_id wi \<notin> index_members (capabilityIndex r) k"
             "wi_id wi \<notin> index_members (modelIndex r) k" for k
    using assms unfolding indexed_by_caps_def by fastforce+
  show ?thesis
    using assms(1) none unfolding indexed_by_caps_def
    by (auto simp: register_workers register_capabilityIndex register_modelIndex
        split: if_splits)
qed

lemma unregister_unknown: "workers r wid = None \<Longrightarrow> snd (unregisterWorker wid r) = r"
  by (simp add: unregisterWorker_def)

lemma unregister_stuck:
  "workers r wid = Some w \<Longrightarrow> wi_capabilities w = CapsObject ModelsNotIterable
     \<Longrightarrow> snd (unregisterWorker wid r) = r"
  by (simp add: unregisterWorker_def)

lemma unregister_workers:
  "workers r wid = Some w \<Longrightarrow> wi_capabilities w \<noteq> CapsObject ModelsNotIterable
     \<Longrightarrow> workers (snd (unregisterWorker wid r)) = (workers r)(wid := None)"
  by (auto simp: unregisterWorker_def Let_def split: capabilities.splits models_prop.splits)

lemma unregister_capabilityIndex:
  "workers r wid = Some w \<Longrightarrow> wi_capabilities w \<noteq> CapsObject ModelsNotIterable
     \<Longrightarrow> index_members (capabilityIndex (snd (unregisterWorker wid r))) k =
           (if k \<in> cap_keys (wi_capabilities w)
            then index_members (capabilityIndex r) k - {wid}
            else index_members (capabilityIndex r) k)"
  by (auto simp: unregisterWorker_def Let_def members_fold_remove
      split: capabilities.splits models_prop.splits)

lemma unregister_modelIndex:
  "workers r wid = Some w \<Longrightarrow> wi_capabilities w \<noteq> CapsObject ModelsNotIterable
     \<Longrightarrow> index_members (modelIndex (snd (unregisterWorker wid r))) k =
           (if k \<in> model_keys (wi_capabilities w)
            then index_members (modelIndex r) k - {wid}
            else index_members (modelIndex r) k)"
  by (auto simp: unregisterWorker_def Let_def members_fold_remove
      split: capabilities.splits models_prop.splits)

lemma indexed_unregister:
  assumes "indexed_by_caps r"
  shows "indexed_by_caps (snd (unregisterWorker wid r))"
proof (cases "workers r wid")
  case None
  with assms show ?thesis by (simp add: unregister_unknown)
next
  case (Some w)
  show ?thesis
  proof (cases "wi_capabilities w = CapsObject ModelsNotIterable")
    case True
    with Some assms show ?thesis by (simp add: unregister_stuck)
  next
    case False
    have mine:
      "wid \<in> index_members (capabilityIndex r) k \<Longrightarrow> k \<in> cap_keys (wi_capabilities w)"
      "wid \<in> index_members (modelIndex r) k \<Longrightarrow> k \<in> model_keys (wi_capabilities w)" for k
      using assms Some unfolding indexed_by_caps_def by fastforce+
    show ?thesis
      using assms mine unfolding indexed_by_caps_def
      by (auto simp: unregister_workers[OF Some False]
          unregister_capabilityIndex[OF Some False] unregister_modelIndex[OF Some False]
          split: if_splits)
  qed
qed

lemma indexed_run:
  "indexed_by_caps r \<Longrightarrow> fresh_ids calls r \<Longrightarrow> indexed_by_caps (fold registry_step calls r)"
proof (induction calls arbitrary: r)
  case Nil
  then show ?case by simp
next
  case (Cons c calls)
  then show ?case
    by (cases c) (auto simp: indexed_register indexed_unregister)
qed

lemma indexed_no_dangling: "indexed_by_caps r \<Longrightarrow> \<not> dangling r k wid"
  unfolding indexed_by_caps_def dangling_def index_members_def
  by (fastforce split: option.splits)

text \<open>
  As long as no id is registered while it is still registered, the indices stay
  consistent: the registry never has a dangling entry.
\<close>

lemma no_dangling_without_reregistration:
  assumes "fresh_ids calls new_registry"
  shows "\<not> dangling (registry_run calls new_registry) k wid"
proof -
  have "indexed_by_caps new_registry"
    by (simp add: indexed_by_caps_def new_registry_def index_members_def)
  then have "indexed_by_caps (fold registry_step calls new_registry)"
    using assms by (rule indexed_run)
  then show ?thesis unfolding registry_run_def by (rule indexed_no_dangling)
qed

text \<open>
  Claim C3 (after any sequence of \<open>registerWorker\<close> and \<open>unregisterWorker\<close> calls,
  re-registration with other models included, no index entry names an id that is not a
  key of the main map). The code breaks it: register \<open>w1\<close> with models \<open>[m1]\<close>,
  register \<open>w1\<close> again with models \<open>[m2]\<close>, unregister \<open>w1\<close>. The second call
  overwrites the worker and leaves its entry under \<open>m1\<close>; the third removes only the
  entries of the capabilities now stored, so \<open>modelIndex\<close> keeps \<open>m1 \<mapsto> {w1}\<close> while
  \<open>w1\<close> is no longer a key of \<open>workers\<close>.
\<close>

theorem reregistration_leaves_dangling_index_entry:
  "dangling
     (registry_run [Register (w1 [''m1'']), Register (w1 [''m2'']), Unregister ''w1'']
        new_registry)
     ''m1'' ''w1''
   \<and> modelIndex
       (registry_run [Register (w1 [''m1'']), Register (w1 [''m2'']), Unregister ''w1'']
          new_registry) ''m1'' = Some [''w1'']
   \<and> workers
       (registry_run [Register (w1 [''m1'']), Register (w1 [''m2'']), Unregister ''w1'']
          new_registry) ''w1'' = None"
  by (simp add: registry_run_def registerWorker_def unregisterWorker_def new_registry_def
      w1_def index_add_def index_remove_def set_add_def set_delete_def dangling_def Let_def)

section \<open>Gateway: the rate limiter within a window\<close>

lemma denied_iff:
  "(\<not> fst (checkRateLimit conf c t rl)) =
     (rl_enabled conf \<and> (\<exists>d. rl c = Some d \<and> t - windowStart d \<le> windowMs conf
        \<and> requests d \<ge> maxRequests conf))"
  by (auto simp: checkRateLimit_def split: option.splits)

lemma denied_unchanged:
  "\<not> fst (checkRateLimit conf c t rl) \<Longrightarrow> snd (checkRateLimit conf c t rl) = rl"
  by (auto simp: checkRateLimit_def split: option.splits if_splits)

text \<open>While the clock does not run backwards, no stored window begins in the future.\<close>

lemma starts_before_step:
  "starts_before lo rl \<Longrightarrow> lo \<le> event_time e
     \<Longrightarrow> starts_before (event_time e) (limiter_step conf e rl)"
  by (cases e) (auto simp: starts_before_def checkRateLimit_def rateLimitCleanup_def
      split: option.splits if_splits, fastforce+)

lemma starts_before_run:
  "starts_before lo rl \<Longrightarrow> sorted (lo # map event_time evs) \<Longrightarrow>
     starts_before (last (lo # map event_time evs)) (limiter_run conf evs rl)"
proof (induction evs arbitrary: lo rl)
  case Nil
  then show ?case by (simp add: limiter_run_def)
next
  case (Cons e evs)
  have "starts_before (event_time e) (limiter_step conf e rl)"
    using Cons.prems by (intro starts_before_step) auto
  moreover have "sorted (event_time e # map event_time evs)"
    using Cons.prems by simp
  ultimately have "starts_before (last (event_time e # map event_time evs))
      (limiter_run conf evs (limiter_step conf e rl))"
    by (rule Cons.IH)
  then show ?case by (simp add: limiter_run_def)
qed

text \<open>
  One event keeps the entry of a client that is at its limit, unless the event is a
  request of that client after the window.
\<close>

lemma held_step:
  assumes "rl_enabled conf" "requests d \<ge> maxRequests conf" "0 \<le> windowMs conf"
    and "held conf c d lo rl" "lo \<le> event_time e"
    and "\<not> resets_window conf c (windowStart d) e"
  shows "held conf c d (event_time e) (limiter_step conf e rl)"
proof (cases e)
  case (Request c' te)
  show ?thesis
  proof (cases "c' = c")
    case True
    with assms Request show ?thesis
      by (auto simp: held_def checkRateLimit_def split: option.splits)
  next
    case False
    with assms Request show ?thesis
      by (auto simp: held_def checkRateLimit_def split: option.splits)
  qed
next
  case (Cleanup te)
  with assms show ?thesis
    by (auto simp: held_def rateLimitCleanup_def split: option.splits)
qed

lemma held_run:
  assumes "rl_enabled conf" "requests d \<ge> maxRequests conf" "0 \<le> windowMs conf"
  shows "held conf c d lo rl \<Longrightarrow> sorted (lo # map event_time evs) \<Longrightarrow>
     \<forall>e\<in>set evs. \<not> resets_window conf c (windowStart d) e \<Longrightarrow>
     held conf c d (last (lo # map event_time evs)) (limiter_run conf evs rl)"
proof (induction evs arbitrary: lo rl)
  case Nil
  then show ?case by (simp add: limiter_run_def)
next
  case (Cons e evs)
  have "held conf c d (event_time e) (limiter_step conf e rl)"
    using assms Cons.prems by (intro held_step) auto
  moreover have "sorted (event_time e # map event_time evs)"
    using Cons.prems by simp
  moreover have "\<forall>e\<in>set evs. \<not> resets_window conf c (windowStart d) e"
    using Cons.prems by simp
  ultimately have "held conf c d (last (event_time e # map event_time evs))
      (limiter_run conf evs (limiter_step conf e rl))"
    by (rule Cons.IH)
  then show ?case by (simp add: limiter_run_def)
qed

lemma held_next:
  assumes "rl_enabled conf" "requests d \<ge> maxRequests conf"
    and "held conf c d hi rl" "hi \<le> t"
  shows "checkRateLimit conf c t rl =
     (if t - windowStart d > windowMs conf
      then (True, rl(c \<mapsto> \<lparr>requests = 1, windowStart = t\<rparr>)) else (False, rl))"
  using assms by (auto simp: held_def checkRateLimit_def split: option.splits)

text \<open>
  After a denial at \<open>t0\<close>, and events among which the client makes no request after
  its window, the client's next request is denied inside the window and resets it after.
\<close>

lemma denied_then_next:
  assumes times: "sorted (map event_time (pre @ Request c t0 # evs @ [Request c t]))"
    and reach: "rl = limiter_run conf pre Map.empty"
    and denied: "\<not> fst (checkRateLimit conf c t0 rl)"
    and entry: "rl c = Some d"
    and within: "\<forall>e\<in>set evs. \<not> resets_window conf c (windowStart d) e"
  shows "checkRateLimit conf c t (limiter_run conf evs rl) =
     (if t - windowStart d > windowMs conf
      then (True, (limiter_run conf evs rl)(c \<mapsto> \<lparr>requests = 1, windowStart = t\<rparr>))
      else (False, limiter_run conf evs rl))"
proof -
  from denied entry have en: "rl_enabled conf" and full: "requests d \<ge> maxRequests conf"
    and inw: "t0 - windowStart d \<le> windowMs conf"
    using denied_iff[of conf c t0 rl] by auto
  have pre_sorted: "sorted (map event_time pre)"
    and pre_le: "\<forall>x\<in>set pre. event_time x \<le> t0"
    and evs_sorted: "sorted (t0 # map event_time evs)"
    and t_ge: "\<forall>x\<in>set evs. event_time x \<le> t" and "t0 \<le> t"
    using times by (auto simp: sorted_append)
  have ws_le: "windowStart d \<le> t0"
  proof (cases pre)
    case Nil
    with reach entry show ?thesis by (simp add: limiter_run_def)
  next
    case (Cons e pre')
    have "starts_before (event_time e) Map.empty" by (simp add: starts_before_def)
    moreover have "sorted (event_time e # map event_time pre)"
      using pre_sorted Cons by auto
    ultimately have "starts_before (last (event_time e # map event_time pre))
        (limiter_run conf pre Map.empty)"
      by (rule starts_before_run)
    then have "windowStart d \<le> last (event_time e # map event_time pre)"
      using reach entry by (auto simp: starts_before_def)
    moreover have "last (event_time e # map event_time pre) \<le> t0"
      using pre_le Cons by (simp add: last_map)
    ultimately show ?thesis by simp
  qed
  with inw have w0: "0 \<le> windowMs conf" by simp
  have "held conf c d t0 rl" using entry by (simp add: held_def)
  then have h: "held conf c d (last (t0 # map event_time evs)) (limiter_run conf evs rl)"
    using evs_sorted within by (rule held_run[OF en full w0])
  have "last (t0 # map event_time evs) \<le> t"
    using t_ge \<open>t0 \<le> t\<close> by (cases evs rule: rev_cases) auto
  with h show ?thesis by (rule held_next[OF en full])
qed

text \<open>
  Without runs of the cleanup in between, the same holds from any state of the limiter
  and whatever the clock does.
\<close>

lemma denied_until_reset_requests_only:
  assumes denied: "\<not> fst (checkRateLimit conf c t0 rl)"
    and entry: "rl c = Some d"
    and only: "\<forall>e\<in>set evs. (\<exists>c' t'. e = Request c' t') \<and> \<not> resets_window conf c (windowStart d) e"
  shows "checkRateLimit conf c t (limiter_run conf evs rl) =
     (if t - windowStart d > windowMs conf
      then (True, (limiter_run conf evs rl)(c \<mapsto> \<lparr>requests = 1, windowStart = t\<rparr>))
      else (False, limiter_run conf evs rl))"
proof -
  from denied entry have en: "rl_enabled conf" and full: "requests d \<ge> maxRequests conf"
    using denied_iff[of conf c t0 rl] by auto
  have keep: "rl' c = Some d \<Longrightarrow>
      \<forall>e\<in>set evs'. (\<exists>c' t'. e = Request c' t') \<and> \<not> resets_window conf c (windowStart d) e \<Longrightarrow>
      fold (limiter_step conf) evs' rl' c = Some d" for evs' rl'
  proof (induction evs' arbitrary: rl')
    case Nil
    then show ?case by simp
  next
    case (Cons e evs')
    from Cons.prems(2) obtain c' t' where e: "e = Request c' t'" by auto
    have "limiter_step conf e rl' c = Some d"
      using Cons.prems e en full by (auto simp: checkRateLimit_def split: option.splits)
    then show ?case using Cons by simp
  qed
  have "limiter_run conf evs rl c = Some d"
    unfolding limiter_run_def using entry only by (rule keep)
  then show ?thesis
    using en full by (auto simp: checkRateLimit_def)
qed

text \<open>
  With the cleanup, the order of the clock readings matters: a cleanup whose clock reads
  5000 deletes the entry of the denied client, and a request whose clock reads 300
  again, inside the old window, is then allowed.
\<close>

lemma clock_set_back_readmits:
  "\<not> fst (checkRateLimit two_per_second ''10.0.0.1'' 200
            (limiter_run two_per_second first_two Map.empty))
   \<and> fst (checkRateLimit two_per_second ''10.0.0.1'' 300
          (limiter_run two_per_second [Cleanup 5000]
             (limiter_run two_per_second first_two Map.empty)))"
  by (simp add: two_per_second_def first_two_def limiter_run_def
      checkRateLimit_def rateLimitCleanup_def windowMs_def maxRequests_def num_or_def)

text \<open>
  Claim C4. The limiter starts empty and its clock does not run backwards. Let a request
  of client \<open>c\<close> be denied at \<open>t0\<close>, the stored entry of \<open>c\<close> being \<open>d\<close>, and let
  \<open>evs\<close> be what happens next (requests of any client, runs of the cleanup) up to the
  first request of \<open>c\<close> that comes more than \<open>windowMs\<close> after \<open>windowStart d\<close>. Then
  every request of \<open>c\<close> among \<open>evs\<close> is denied, and the request of \<open>c\<close> that follows at
  \<open>t\<close> is denied as long as \<open>t - windowStart d \<le> windowMs\<close>; once
  \<open>t - windowStart d > windowMs\<close> it is allowed and the entry of \<open>c\<close> becomes
  \<open>requests = 1, windowStart = t\<close>.
\<close>

theorem rate_limit_denied_until_window_expires:
  assumes times: "sorted (map event_time (pre @ Request c t0 # evs @ [Request c t]))"
    and reach: "rl = limiter_run conf pre Map.empty"
    and denied: "\<not> fst (checkRateLimit conf c t0 rl)"
    and entry: "rl c = Some d"
    and within: "\<forall>e\<in>set evs. \<not> resets_window conf c (windowStart d) e"
  shows "(\<forall>i<length evs. \<forall>ti. evs ! i = Request c ti \<longrightarrow>
            \<not> fst (checkRateLimit conf c ti (limiter_run conf (take i evs) rl)))
       \<and> checkRateLimit conf c t (limiter_run conf evs rl) =
           (if t - windowStart d > windowMs conf
            then (True, (limiter_run conf evs rl)(c \<mapsto> \<lparr>requests = 1, windowStart = t\<rparr>))
            else (False, limiter_run conf evs rl))"
proof (intro conjI allI impI)
  fix i ti
  assume i: "i < length evs" and ei: "evs ! i = Request c ti"
  have split: "evs = take i evs @ Request c ti # drop (Suc i) evs"
    using id_take_nth_drop[OF i] ei by simp
  have "sorted (map event_time
          (pre @ Request c t0 # (take i evs @ Request c ti # drop (Suc i) evs) @ [Request c t]))"
    using times split by simp
  then have s: "sorted (map event_time (pre @ Request c t0 # take i evs @ [Request c ti]))"
    by (auto simp: sorted_append)
  have w: "\<forall>e\<in>set (take i evs). \<not> resets_window conf c (windowStart d) e"
    using within by (auto dest: in_set_takeD)
  have "\<not> resets_window conf c (windowStart d) (Request c ti)"
    using within i ei by (metis nth_mem)
  then have "\<not> ti - windowStart d > windowMs conf" by simp
  with denied_then_next[OF s reach denied entry w]
  show "\<not> fst (checkRateLimit conf c ti (limiter_run conf (take i evs) rl))" by simp
next
  show "checkRateLimit conf c t (limiter_run conf evs rl) =
           (if t - windowStart d > windowMs conf
            then (True, (limiter_run conf evs rl)(c \<mapsto> \<lparr>requests = 1, windowStart = t\<rparr>))
            else (False, limiter_run conf evs rl))"
    using denied_then_next[OF times reach denied entry within] .
qed

text \<open>
  Two requests per second: the third request of the client, at 200, is denied, so is its
  fourth at 300, and the one at 1100 is allowed and begins a new window.
\<close>

theorem rate_limit_denied_until_window_expires_witness:
  "\<not> fst (checkRateLimit two_per_second ''10.0.0.1'' 200
            (limiter_run two_per_second first_two Map.empty))
   \<and> \<not> fst (checkRateLimit two_per_second ''10.0.0.1'' 300
              (limiter_run two_per_second (take 0 then_denied)
                 (limiter_run two_per_second first_two Map.empty)))
   \<and> checkRateLimit two_per_second ''10.0.0.1'' 1100
        (limiter_run two_per_second then_denied
           (limiter_run two_per_second first_two Map.empty))
      = (True,
         (limiter_run two_per_second then_denied
            (limiter_run two_per_second first_two Map.empty))
         (''10.0.0.1'' \<mapsto> \<lparr>requests = 1, windowStart = 1100\<rparr>))"
  using rate_limit_denied_until_window_expires
          [where pre = first_two and c = "''10.0.0.1''" and ?t0.0 = 200 and evs = then_denied
             and t = 1100 and rl = "limiter_run two_per_second first_two Map.empty"
             and conf = two_per_second and d = "\<lparr>requests = 2, windowStart = 0\<rparr>"]
  by (simp add: two_per_second_def first_two_def then_denied_def limiter_run_def
      checkRateLimit_def rateLimitCleanup_def windowMs_def maxRequests_def num_or_def)

section \<open>Model manager: storing and reading back a model\<close>

text \<open>
  Claim C6. For every model id and every buffer no longer than \<open>maxModelSize\<close>, a
  store whose write resolves returns a storage key under which \<open>getModel\<close> reads back
  exactly the bytes stored, and the checksum computed again from what is read is the
  checksum the store returned. At the level of the manager, for a model id not yet
  registered and metadata with a type, \<open>validateModel\<close> after \<open>storeModel\<close> reports
  \<open>isValid = true\<close> against that same checksum.
\<close>

theorem checksum_round_trip:
  assumes "real (length bytes) \<le> maxModelSize st"
  shows "(\<exists>r fs' calls.
            storeModel lib st Written m bytes fs = (Inr r, fs', calls)
          \<and> getModel lib st (sr_key r) fs' = Inr bytes
          \<and> map_sum id (calculateChecksum lib) (getModel lib st (sr_key r) fs')
              = Inr (sr_checksum r))
       \<and> (mgr_storage mgr = st \<and> str_truthy (um_type um) \<and> m \<notin> dom (metadataStore mgr)
            \<longrightarrow> (\<exists>res mgr'.
                   mgr_storeModel lib Written m (Some bytes) (Some um) tc ts mgr
                     = (Inr res, mgr')
                 \<and> getModel lib (mgr_storage mgr') (st_storageKey res) (mgr_fs mgr')
                     = Inr bytes
                 \<and> map_sum id isValid (validateModel lib m mgr') = Inr True
                 \<and> map_sum id expectedChecksum (validateModel lib m mgr')
                     = Inr (st_checksum res)))"
proof (intro conjI impI)
  show "\<exists>r fs' calls.
            storeModel lib st Written m bytes fs = (Inr r, fs', calls)
          \<and> getModel lib st (sr_key r) fs' = Inr bytes
          \<and> map_sum id (calculateChecksum lib) (getModel lib st (sr_key r) fs')
              = Inr (sr_checksum r)"
    using assms
    by (simp add: storeModel_def fs_writeFile_def getModel_def fs_readFile_def Let_def)
next
  assume "mgr_storage mgr = st \<and> str_truthy (um_type um) \<and> m \<notin> dom (metadataStore mgr)"
  with assms
  show "\<exists>res mgr'.
          mgr_storeModel lib Written m (Some bytes) (Some um) tc ts mgr = (Inr res, mgr')
        \<and> getModel lib (mgr_storage mgr') (st_storageKey res) (mgr_fs mgr') = Inr bytes
        \<and> map_sum id isValid (validateModel lib m mgr') = Inr True
        \<and> map_sum id expectedChecksum (validateModel lib m mgr') = Inr (st_checksum res)"
    by (simp add: mgr_storeModel_def storeModel_def fs_writeFile_def getModel_def
        fs_readFile_def Let_def storeMetadata_def validateModel_def getMetadata_def
        calculateChecksum_def)
qed

theorem checksum_round_trip_witness:
  "(\<exists>r fs' calls.
      storeModel toy_lib small_storage Written ''m1'' ''abcd'' Map.empty = (Inr r, fs', calls)
    \<and> getModel toy_lib small_storage (sr_key r) fs' = Inr ''abcd''
    \<and> map_sum id (calculateChecksum toy_lib) (getModel toy_lib small_storage (sr_key r) fs')
        = Inr (sr_checksum r))
   \<and> (\<exists>res mgr'.
        mgr_storeModel toy_lib Written ''m1'' (Some ''abcd'') (Some onnx_metadata) 7 8
          empty_manager = (Inr res, mgr')
      \<and> getModel toy_lib (mgr_storage mgr') (st_storageKey res) (mgr_fs mgr') = Inr ''abcd''
      \<and> map_sum id isValid (validateModel toy_lib ''m1'' mgr') = Inr True
      \<and> map_sum id expectedChecksum (validateModel toy_lib ''m1'' mgr')
          = Inr (st_checksum res))"
proof -
  have size: "real (length ''abcd'') \<le> maxModelSize small_storage"
    by (simp add: small_storage_def)
  have pre: "mgr_storage empty_manager = small_storage
      \<and> str_truthy (um_type onnx_metadata) \<and> ''m1'' \<notin> dom (metadataStore empty_manager)"
    by (simp add: empty_manager_def onnx_metadata_def str_truthy_def)
  show ?thesis
    using checksum_round_trip
            [OF size, where lib = toy_lib and m = "''m1''" and fs = Map.empty
               and mgr = empty_manager and um = onnx_metadata and tc = 7 and ts = 8] pre
    by blast
qed

text \<open>
  Claim C7, as the code has it. \<open>storeModel\<close> throws \<open>ERR_MODEL_TOO_LARGE\<close> whenever
  the buffer is longer than \<open>maxModelSize\<close>, before it touches the file system.
  Otherwise it makes exactly one \<open>fs\<close> call, an \<open>fs.writeFile\<close> of the bytes to
  \<open>storagePath/storageKey\<close> itself; when that write resolves, the call returns the key,
  the path, the checksum of the bytes and their length, and the bytes are under the path.
\<close>

theorem storeModel_size_check_and_direct_write:
  "(real (length bytes) > maxModelSize st
      \<longrightarrow> storeModel lib st wo m bytes fs = (Inl ERR_MODEL_TOO_LARGE, fs, []))
   \<and> (real (length bytes) \<le> maxModelSize st
      \<longrightarrow> snd (snd (storeModel lib st wo m bytes fs))
            = [FsWriteFile (path_join lib (storagePath st) (generateStorageKey lib m)) bytes]
        \<and> storeModel lib st Written m bytes fs
            = (Inr \<lparr>sr_key = generateStorageKey lib m,
                    sr_path = path_join lib (storagePath st) (generateStorageKey lib m),
                    sr_checksum = calculateChecksum lib bytes,
                    sr_size = length bytes\<rparr>,
               fs(path_join lib (storagePath st) (generateStorageKey lib m) \<mapsto> bytes),
               [FsWriteFile (path_join lib (storagePath st) (generateStorageKey lib m)) bytes]))"
  by (auto simp add: storeModel_def fs_writeFile_def Let_def split: write_outcome.splits)

theorem storeModel_size_check_and_direct_write_witness:
  "storeModel toy_lib small_storage Written ''m1'' ''abcde'' Map.empty
     = (Inl ERR_MODEL_TOO_LARGE, Map.empty, [])
   \<and> snd (snd (storeModel toy_lib small_storage Written ''m1'' ''abcd'' Map.empty))
     = [FsWriteFile ''models/hm1.model'' ''abcd'']
   \<and> fst (storeModel toy_lib small_storage Written ''m1'' ''abcd'' Map.empty)
     = Inr \<lparr>sr_key = ''hm1.model'', sr_path = ''models/hm1.model'',
            sr_checksum = ''habcd'', sr_size = 4\<rparr>"
  using storeModel_size_check_and_direct_write
          [where bytes = "''abcde''" and st = small_storage and lib = toy_lib and wo = Written
             and m = "''m1''" and fs = Map.empty]
        storeModel_size_check_and_direct_write
          [where bytes = "''abcd''" and st = small_storage and lib = toy_lib and wo = Written
             and m = "''m1''" and fs = Map.empty]
  by (simp add: small_storage_def toy_lib_def generateStorageKey_def calculateChecksum_def)

text \<open>
  Claim C7 as stated (a successful store writes a temporary file and renames it into
  place, so that a partly written blob is never seen under the storage key) fails: the
  store of \<open>abcd\<close> that succeeds has made the single call \<open>fs.writeFile\<close> on the final
  path, and no rename; and a write that rejects after two bytes leaves those two bytes
  under the storage key.
\<close>

theorem storeModel_writes_in_place_counterexample:
  "fst (storeModel toy_lib small_storage Written ''m1'' ''abcd'' Map.empty)
     = Inr \<lparr>sr_key = ''hm1.model'', sr_path = ''models/hm1.model'',
            sr_checksum = ''habcd'', sr_size = 4\<rparr>
   \<and> snd (snd (storeModel toy_lib small_storage Written ''m1'' ''abcd'' Map.empty))
     = [FsWriteFile ''models/hm1.model'' ''abcd'']
   \<and> \<not> (\<exists>tmp. tmp \<noteq> ''models/hm1.model''
          \<and> snd (snd (storeModel toy_lib small_storage Written ''m1'' ''abcd'' Map.empty))
              = [FsWriteFile tmp ''abcd'', FsRename tmp ''models/hm1.model''])
   \<and> getModel toy_lib small_storage ''hm1.model''
        (fst (snd (storeModel toy_lib small_storage (Rejected (Some ''ab'')) ''m1'' ''abcd''
                     Map.empty)))
     = Inr ''ab''"
  by (simp add: storeModel_def fs_writeFile_def getModel_def fs_readFile_def small_storage_def
      toy_lib_def generateStorageKey_def calculateChecksum_def Let_def)

section \<open>Orchestrator: the weighted strategy\<close>

subsection \<open>Rounding to binary64\<close>

























lemma fl_zero [simp]: "fl 0 = Finite 0"
  by (simp add: fl_def)


















subsection \<open>The weights and the draw are binary64 values\<close>








text \<open>Whatever the numbers, a candidate of a list that is not empty is returned.\<close>

lemma weighted_pick_member: "weighted_pick random wws = Some v \<Longrightarrow> v \<in> fst ` set wws"
proof (induction wws arbitrary: random)
  case Nil
  then show ?case by simp
next
  case (Cons p wws)
  obtain w d where p: "p = (w, d)" by (cases p)
  show ?case
  proof (cases "dle (dsub random d) (Finite 0)")
    case True
    then show ?thesis using Cons.prems by (simp add: p)
  next
    case False
    then have "weighted_pick (dsub random d) wws = Some v" using Cons.prems by (simp add: p)
    then show ?thesis using Cons.IH by simp
  qed
qed

lemma selectWeighted_member:
  assumes "ws \<noteq> []"
  shows "\<exists>w\<in>set ws. selectWeighted ws rnd lb = Some w"
proof (cases "weighted_pick (dmul rnd (totalWeight (weightedWorkers ws lb))) (weightedWorkers ws lb)")
  case None
  then show ?thesis
    using assms by (cases ws) (simp_all add: selectWeighted_def select_from_weights_def
        weightedWorkers_def)
next
  case (Some v)
  then have "v \<in> set ws"
    using weighted_pick_member[OF Some] by (auto simp: weightedWorkers_def)
  then show ?thesis using Some by (simp add: selectWeighted_def select_from_weights_def)
qed











end
